theory Spec2Isabelle
  imports Main "HOL-Library.Word" "HOL-Library.Sublist"
begin

unbundle bit_operations_syntax

section \<open>Strings and paths\<close>

text \<open>
  JavaScript strings are modelled as \<^typ>\<open>string\<close>: a list of 8-bit characters, the
  UTF-8 bytes of the text. \<open>toLowerCase\<close> maps the letters A to Z; every other byte is
  left as it is.
\<close>

type_synonym path = string

definition lower_char :: "char \<Rightarrow> char" where
  "lower_char c =
     (let n = (of_char c :: nat) in if 65 \<le> n \<and> n \<le> 90 then char_of (n + 32) else c)"

definition toLowerCase :: "string \<Rightarrow> string" where
  "toLowerCase s = map lower_char s"

text \<open>
  The functions of Node's \<open>path\<close> module that the server calls, in their POSIX form:
  \<open>path.join\<close> (which normalises its result), \<open>path.dirname\<close>, \<open>path.basename\<close>
  and \<open>path.extname\<close>.
\<close>

definition is_slash :: "char \<Rightarrow> bool" where
  "is_slash c = (c = CHR ''/'')"

fun split_slash :: "string \<Rightarrow> string list" where
  "split_slash [] = [[]]"
| "split_slash (c # cs) =
     (if is_slash c then [] # split_slash cs
      else (case split_slash cs of [] \<Rightarrow> [[c]] | s # ss \<Rightarrow> (c # s) # ss))"

fun join_with :: "string \<Rightarrow> string list \<Rightarrow> string" where
  "join_with sep [] = []"
| "join_with sep [s] = s"
| "join_with sep (s # t # ss) = s @ sep @ join_with sep (t # ss)"

text \<open>
  \<open>normalizeString\<close>: the segments are pushed on a stack (its top first); an empty
  segment and \<open>.\<close> are dropped, \<open>..\<close> pops a segment, or is kept when the path is
  relative and nothing is left to pop.
\<close>

definition norm_step :: "bool \<Rightarrow> string list \<Rightarrow> string \<Rightarrow> string list" where
  "norm_step allowAboveRoot st seg =
     (if seg = [] \<or> seg = ''.'' then st
      else if seg = ''..'' then
        (if st \<noteq> [] \<and> hd st \<noteq> ''..'' then tl st
         else if allowAboveRoot then ''..'' # st else st)
      else seg # st)"

definition normalizeString :: "string \<Rightarrow> bool \<Rightarrow> string" where
  "normalizeString p allowAboveRoot =
     join_with ''/'' (rev (foldl (norm_step allowAboveRoot) [] (split_slash p)))"

definition normalize :: "path \<Rightarrow> path" where
  "normalize p =
     (if p = [] then ''.''
      else
        let isAbsolute = is_slash (hd p);
            trailingSeparator = is_slash (last p);
            s = normalizeString p (\<not> isAbsolute)
        in if s = [] then (if isAbsolute then ''/'' else if trailingSeparator then ''./'' else ''.'')
           else (if isAbsolute then ''/'' else []) @ s @ (if trailingSeparator then ''/'' else []))"

definition join :: "string list \<Rightarrow> path" where
  "join args =
     (let parts = filter (\<lambda>a. a \<noteq> []) args
      in if parts = [] then ''.'' else normalize (join_with ''/'' parts))"

definition strip_trailing_slashes :: "string \<Rightarrow> string" where
  "strip_trailing_slashes p = rev (dropWhile is_slash (rev p))"

definition basename :: "path \<Rightarrow> string" where
  "basename p = rev (takeWhile (\<lambda>c. \<not> is_slash c) (rev (strip_trailing_slashes p)))"

definition dirname :: "path \<Rightarrow> path" where
  "dirname p =
     (if p = [] then ''.''
      else
        let hasRoot = is_slash (hd p);
            rest = rev (dropWhile (\<lambda>c. \<not> is_slash c) (rev (strip_trailing_slashes (tl p))))
        in if rest = [] then (if hasRoot then ''/'' else ''.'')
           else if hasRoot \<and> length rest = 1 then ''//''
           else hd p # butlast rest)"

definition extname :: "path \<Rightarrow> string" where
  "extname p =
     (let b = basename p;
          ext = rev (takeWhile (\<lambda>c. c \<noteq> CHR ''.'') (rev b))
      in if CHR ''.'' \<notin> set b then []
         else if length b = Suc (length ext) then []
         else if b = ''..'' then []
         else CHR ''.'' # ext)"

section \<open>Buffers\<close>

type_synonym byte = "8 word"
type_synonym buffer = "byte list"

definition utf8 :: "string \<Rightarrow> buffer" where
  "utf8 s = map of_char s"

section \<open>The helpers of server-utils.js\<close>

text \<open>
  The server imports \<open>isAbsolutePath\<close>, \<open>isXLSXSignature\<close>, \<open>getOutputFormatInfo\<close>
  and \<open>generateFileHash\<close> from \<open>./server-utils\<close>. The request handlers below take
  the four helpers as a parameter, so that what is proved of a handler holds for every
  implementation of them.
\<close>

record format_info =
  code :: nat
  name :: string

record utils =
  isAbsolutePath :: "string \<Rightarrow> bool"
  isXLSXSignature :: "buffer \<Rightarrow> bool"
  getOutputFormatInfo :: "string \<Rightarrow> format_info option"
  generateFileHash :: "string \<Rightarrow> string"

subsection \<open>Format Registry\<close>

definition strip_dot :: "string \<Rightarrow> string" where
  "strip_dot e = (case e of [] \<Rightarrow> [] | c # cs \<Rightarrow> if c = CHR ''.'' then cs else e)"

definition word_family :: "string list" where
  "word_family = [''doc'', ''docx'', ''odt'', ''txt'', ''rtf'', ''html'']"

definition slide_family :: "string list" where
  "slide_family = [''ppt'', ''pptx'', ''odp'']"

definition cell_family :: "string list" where
  "cell_family = [''xls'', ''xlsx'', ''ods'']"

text \<open>
  Modelled from the spec: \<open>getOutputFormatInfo\<close> of server-utils.js, which is not among
  the sources (only its tests and its caller are). Section 4.1: given a case-insensitive
  file extension, with or without leading dot, return a record of code and name, or the
  not-found sentinel. The codes are those of section 6, the names those the tests expect.
\<close>

definition model_getOutputFormatInfo :: "string \<Rightarrow> format_info option" where
  "model_getOutputFormatInfo ext =
     (let e = strip_dot (toLowerCase ext)
      in if e \<in> set cell_family then Some \<lparr>code = 257, name = ''XLSX''\<rparr>
         else if e = ''csv'' then Some \<lparr>code = 260, name = ''CSV''\<rparr>
         else if e \<in> set word_family then Some \<lparr>code = 65, name = ''DOCX''\<rparr>
         else if e \<in> set slide_family then Some \<lparr>code = 129, name = ''PPTX''\<rparr>
         else None)"

subsection \<open>Signature sniffing\<close>

text \<open>
  Modelled from the spec: \<open>isXLSXSignature\<close> of server-utils.js, which is not among the
  sources. Section 8: a payload beginning with the bytes 50 4B 03 04 (the ZIP signature)
  carries the signature; a payload of fewer than 4 bytes, or one not matching that
  signature, does not. Section 4.5, step 1, words the same sniff as a ZIP-family marker
  at offset 0 that requires at least 4 bytes in total; the two wordings agree on every
  payload of the helper's tests, and differ only on a payload of 4 bytes or more that
  begins with 50 4B and goes on otherwise.
\<close>

definition model_isXLSXSignature :: "buffer \<Rightarrow> bool" where
  "model_isXLSXSignature b = (4 \<le> length b \<and> take 4 b = [0x50, 0x4B, 0x03, 0x04])"

subsection \<open>Absolute paths\<close>

definition is_letter :: "char \<Rightarrow> bool" where
  "is_letter c = (let n = (of_char c :: nat) in (65 \<le> n \<and> n \<le> 90) \<or> (97 \<le> n \<and> n \<le> 122))"

text \<open>
  Modelled from the spec: \<open>isAbsolutePath\<close> of server-utils.js, which is not among the
  sources. The spec only names the notion (an absolute path); the tests accept POSIX
  paths that begin with a slash and Windows paths that begin with a drive letter, a colon
  and a separator. No theorem about a handler depends on it: it only serves the examples.
\<close>

definition model_isAbsolutePath :: "string \<Rightarrow> bool" where
  "model_isAbsolutePath p =
     (case p of
        [] \<Rightarrow> False
      | c # cs \<Rightarrow>
          is_slash c \<or>
          (case cs of
             d # e # _ \<Rightarrow> is_letter c \<and> d = CHR '':'' \<and> (is_slash e \<or> e = CHR 0x5C)
           | _ \<Rightarrow> False))"

subsection \<open>Content Fingerprinting\<close>

text \<open>
  The MD5 digest of Node's \<open>crypto\<close> module, written out after RFC 1321: the padding,
  the 64 steps on each block of 64 bytes, and the digest as 16 bytes; then its rendering
  in lowercase hexadecimal digits (\<open>digest('hex')\<close>).
\<close>

definition md5_K :: "32 word list" where
  "md5_K =
    [0xd76aa478, 0xe8c7b756, 0x242070db, 0xc1bdceee, 0xf57c0faf, 0x4787c62a, 0xa8304613, 0xfd469501,
     0x698098d8, 0x8b44f7af, 0xffff5bb1, 0x895cd7be, 0x6b901122, 0xfd987193, 0xa679438e, 0x49b40821,
     0xf61e2562, 0xc040b340, 0x265e5a51, 0xe9b6c7aa, 0xd62f105d, 0x02441453, 0xd8a1e681, 0xe7d3fbc8,
     0x21e1cde6, 0xc33707d6, 0xf4d50d87, 0x455a14ed, 0xa9e3e905, 0xfcefa3f8, 0x676f02d9, 0x8d2a4c8a,
     0xfffa3942, 0x8771f681, 0x6d9d6122, 0xfde5380c, 0xa4beea44, 0x4bdecfa9, 0xf6bb4b60, 0xbebfbc70,
     0x289b7ec6, 0xeaa127fa, 0xd4ef3085, 0x04881d05, 0xd9d4d039, 0xe6db99e5, 0x1fa27cf8, 0xc4ac5665,
     0xf4292244, 0x432aff97, 0xab9423a7, 0xfc93a039, 0x655b59c3, 0x8f0ccc92, 0xffeff47d, 0x85845dd1,
     0x6fa87e4f, 0xfe2ce6e0, 0xa3014314, 0x4e0811a1, 0xf7537e82, 0xbd3af235, 0x2ad7d2bb, 0xeb86d391]"

definition md5_S :: "nat list" where
  "md5_S =
    [7, 12, 17, 22, 7, 12, 17, 22, 7, 12, 17, 22, 7, 12, 17, 22,
     5, 9, 14, 20, 5, 9, 14, 20, 5, 9, 14, 20, 5, 9, 14, 20,
     4, 11, 16, 23, 4, 11, 16, 23, 4, 11, 16, 23, 4, 11, 16, 23,
     6, 10, 15, 21, 6, 10, 15, 21, 6, 10, 15, 21, 6, 10, 15, 21]"

type_synonym md5_state = "32 word \<times> 32 word \<times> 32 word \<times> 32 word"

definition le_bytes :: "nat \<Rightarrow> 'a::len word \<Rightarrow> buffer" where
  "le_bytes n w = map (\<lambda>i. ucast (drop_bit (8 * i) w)) [0..<n]"

definition le_word :: "buffer \<Rightarrow> 32 word" where
  "le_word bs = foldr (\<lambda>b w. ucast b OR push_bit 8 w) bs 0"

definition md5_pad :: "buffer \<Rightarrow> buffer" where
  "md5_pad m =
     m @ [0x80] @ replicate ((119 - length m mod 64) mod 64) 0
       @ le_bytes 8 (word_of_nat (8 * length m) :: 64 word)"

definition md5_chunks :: "buffer \<Rightarrow> buffer list" where
  "md5_chunks m = map (\<lambda>i. take 64 (drop (64 * i) m)) [0..<length m div 64]"

definition md5_words :: "buffer \<Rightarrow> 32 word list" where
  "md5_words chunk = map (\<lambda>j. le_word (take 4 (drop (4 * j) chunk))) [0..<16]"

definition md5_step :: "32 word list \<Rightarrow> md5_state \<Rightarrow> nat \<Rightarrow> md5_state" where
  "md5_step M st i =
     (case st of (a, b, c, d) \<Rightarrow>
        let f = (if i < 16 then (b AND c) OR (NOT b AND d)
                 else if i < 32 then (d AND b) OR (NOT d AND c)
                 else if i < 48 then b XOR c XOR d
                 else c XOR (b OR NOT d));
            g = (if i < 16 then i
                 else if i < 32 then (5 * i + 1) mod 16
                 else if i < 48 then (3 * i + 5) mod 16
                 else (7 * i) mod 16);
            f' = f + a + md5_K ! i + M ! g
        in (d, b + word_rotl (md5_S ! i) f', b, c))"

definition md5_chunk :: "md5_state \<Rightarrow> buffer \<Rightarrow> md5_state" where
  "md5_chunk st chunk =
     (case st of (a0, b0, c0, d0) \<Rightarrow>
        (case foldl (md5_step (md5_words chunk)) st [0..<64] of
           (a, b, c, d) \<Rightarrow> (a0 + a, b0 + b, c0 + c, d0 + d)))"

definition md5 :: "buffer \<Rightarrow> buffer" where
  "md5 m =
     (case foldl md5_chunk (0x67452301, 0xefcdab89, 0x98badcfe, 0x10325476) (md5_chunks (md5_pad m)) of
        (a, b, c, d) \<Rightarrow> le_bytes 4 a @ le_bytes 4 b @ le_bytes 4 c @ le_bytes 4 d)"

definition hex_digit :: "nat \<Rightarrow> char" where
  "hex_digit n = ''0123456789abcdef'' ! (n mod 16)"

definition hex_byte :: "byte \<Rightarrow> string" where
  "hex_byte b = [hex_digit (unat b div 16), hex_digit (unat b mod 16)]"

definition hex :: "buffer \<Rightarrow> string" where
  "hex bs = concat (map hex_byte bs)"

text \<open>
  Modelled from the spec: \<open>generateFileHash\<close> of server-utils.js, which is not among the
  sources. Section 4.2: a 16-byte digest computed from the path string alone, rendered as
  32 lowercase hexadecimal characters. The digest is MD5: the test calls it so, and the
  server computes its other hash with \<open>crypto.createHash('md5')\<close>.
\<close>

definition model_generateFileHash :: "string \<Rightarrow> string" where
  "model_generateFileHash filepath = hex (md5 (utf8 filepath))"

definition model_utils :: utils where
  "model_utils =
     \<lparr>isAbsolutePath = model_isAbsolutePath,
      isXLSXSignature = model_isXLSXSignature,
      getOutputFormatInfo = model_getOutputFormatInfo,
      generateFileHash = model_generateFileHash\<rparr>"

section \<open>The filesystem\<close>

text \<open>
  The calls of Node's \<open>fs\<close> module that the two handlers make, over a filesystem that
  maps a path to a file (its bytes and modification time) or a directory. A path names
  a node as a string: there are no symbolic links, and two spellings of one location are
  two names. \<open>mtimeMs\<close> is a number of milliseconds; the handlers only compare two of
  them, so an integer stands for it. A call fails as Node's does when the path is missing
  or of the wrong kind; failures of the platform (permissions, a full disk) are not
  modelled, and neither is the size the platform reports for a directory (0 here).
\<close>

datatype node = File buffer int | Dir int

type_synonym filesystem = "path \<rightharpoonup> node"

datatype errno = ENOENT | ENOTDIR | EISDIR | EEXIST

datatype fs_error = Fs_error errno string path

record stats =
  size :: nat
  mtimeMs :: int

definition mtime_of :: "node \<Rightarrow> int" where
  "mtime_of n = (case n of File d m \<Rightarrow> m | Dir m \<Rightarrow> m)"

definition existsSync :: "filesystem \<Rightarrow> path \<Rightarrow> bool" where
  "existsSync fs p = (fs p \<noteq> None)"

definition statSync :: "filesystem \<Rightarrow> path \<Rightarrow> fs_error + stats" where
  "statSync fs p =
     (case fs p of
        None \<Rightarrow> Inl (Fs_error ENOENT ''stat'' p)
      | Some n \<Rightarrow> Inr \<lparr>size = (case n of File d m \<Rightarrow> length d | Dir m \<Rightarrow> 0), mtimeMs = mtime_of n\<rparr>)"

definition readFileSync :: "filesystem \<Rightarrow> path \<Rightarrow> fs_error + buffer" where
  "readFileSync fs p =
     (case fs p of
        None \<Rightarrow> Inl (Fs_error ENOENT ''open'' p)
      | Some (File d m) \<Rightarrow> Inr d
      | Some (Dir m) \<Rightarrow> Inl (Fs_error EISDIR ''read'' p))"

definition writeFileSync :: "filesystem \<Rightarrow> int \<Rightarrow> path \<Rightarrow> buffer \<Rightarrow> fs_error + filesystem" where
  "writeFileSync fs now p d =
     (case fs p of
        Some (Dir m) \<Rightarrow> Inl (Fs_error EISDIR ''open'' p)
      | _ \<Rightarrow>
          (case fs (dirname p) of
             None \<Rightarrow> Inl (Fs_error ENOENT ''open'' p)
           | Some (File d' m) \<Rightarrow> Inl (Fs_error ENOTDIR ''open'' p)
           | Some (Dir m) \<Rightarrow> Inr (fs(p \<mapsto> File d now))))"

definition unlinkSync :: "filesystem \<Rightarrow> path \<Rightarrow> fs_error + filesystem" where
  "unlinkSync fs p =
     (case fs p of
        None \<Rightarrow> Inl (Fs_error ENOENT ''unlink'' p)
      | Some (File d m) \<Rightarrow> Inr (fs(p := None))
      | Some (Dir m) \<Rightarrow> Inl (Fs_error EISDIR ''unlink'' p))"

text \<open>
  \<open>fs.mkdirSync(p, { recursive: true })\<close> creates \<open>p\<close> and every missing directory
  above it, the outermost first, and fails where a file stands in the way. (On a real
  filesystem every directory above an existing file exists, so nothing has been created
  when the call fails.)
\<close>

function ancestors :: "path \<Rightarrow> path list" where
  "ancestors p = (if length (dirname p) < length p then p # ancestors (dirname p) else [p])"
  by pat_completeness auto
termination
  by (relation "measure length") auto

declare ancestors.simps [simp del]

definition mkdir_one :: "int \<Rightarrow> path \<Rightarrow> fs_error + filesystem \<Rightarrow> path \<Rightarrow> fs_error + filesystem" where
  "mkdir_one now p r a =
     (case r of
        Inl e \<Rightarrow> Inl e
      | Inr fs \<Rightarrow>
          (case fs a of
             None \<Rightarrow> Inr (fs(a \<mapsto> Dir now))
           | Some (Dir m) \<Rightarrow> Inr fs
           | Some (File d m) \<Rightarrow> Inl (Fs_error (if a = p then EEXIST else ENOTDIR) ''mkdir'' p)))"

definition mkdirSync :: "filesystem \<Rightarrow> int \<Rightarrow> path \<Rightarrow> fs_error + filesystem" where
  "mkdirSync fs now p = foldl (mkdir_one now p) (Inr fs) (rev (ancestors p))"

text \<open>
  Both handlers create a directory with
  \<open>if (!fs.existsSync(d)) fs.mkdirSync(d, { recursive: true })\<close>.
\<close>

definition ensure_dir :: "filesystem \<Rightarrow> int \<Rightarrow> path \<Rightarrow> fs_error + filesystem" where
  "ensure_dir fs now d = (if \<not> existsSync fs d then mkdirSync fs now d else Inr fs)"

definition errno_text :: "errno \<Rightarrow> string" where
  "errno_text e =
     (case e of
        ENOENT \<Rightarrow> ''ENOENT: no such file or directory''
      | ENOTDIR \<Rightarrow> ''ENOTDIR: not a directory''
      | EISDIR \<Rightarrow> ''EISDIR: illegal operation on a directory''
      | EEXIST \<Rightarrow> ''EEXIST: file already exists'')"

definition message :: "fs_error \<Rightarrow> string" where
  "message err =
     (case err of Fs_error e syscall p \<Rightarrow>
        errno_text e @ '', '' @ syscall @ '' '' @ [CHR 0x27] @ p @ [CHR 0x27])"

section \<open>The converter process\<close>

text \<open>
  \<open>spawn(x2tPath, [paramsPath])\<close> starts the external converter. What the child does
  is a parameter of the model: either it cannot be started (\<open>Spawn_failed\<close>, with the
  negative error number Node reports), or it runs and ends with an exit code (none when
  a signal ended it), having written to its standard output and standard error and left
  the filesystem in some state. Node then emits the events of the child: after a failed
  spawn \<open>error\<close> and then \<open>close\<close> with the error number as its code; after a run
  \<open>close\<close> with the exit code. An \<open>error\<close> event that has no listener is thrown.
\<close>

datatype child =
    Spawn_failed int
  | Exited "int option" string string filesystem

record env =
  app_dir :: path
  FONT_DATA_DIR :: path
  now :: int
  timestamp :: string
  x2t :: "filesystem \<Rightarrow> path \<Rightarrow> child"

text \<open>
  \<open>app_dir\<close> is \<open>__dirname\<close>; \<open>now\<close> is the clock reading stamped on what the
  server writes; \<open>timestamp\<close> is \<open>new Date().toISOString()\<close>; \<open>x2t\<close> is the
  converter, given the filesystem at the spawn and the path of its descriptor.
\<close>

section \<open>Requests and responses\<close>

text \<open>
  A request as the client sends it: the two query parameters, the \<open>Content-Type\<close>
  header and the bytes of the body.
\<close>

record request =
  query_filepath :: "string option"
  query_filehash :: "string option"
  content_type :: "string option"
  body :: buffer

text \<open>
  What the handlers read as \<open>req.body\<close> is left by the two body parsers that the
  server installs before its routes: \<open>express.raw({ type: 'application/octet-stream' })\<close>
  and \<open>express.json()\<close>. The first turns the body into a Buffer when the media type of
  the header (the header up to its parameters, without the spaces around it, in lower
  case) is \<open>application/octet-stream\<close>. For every other request \<open>req.body\<close> is not a
  Buffer: it is the empty object, or the object parsed from a JSON body, and has neither a
  length nor a \<open>slice\<close> method. A header with malformed parameters, and a JSON body
  that is an array or does not parse, are not modelled.
\<close>

datatype parsed_body = Buffer buffer | Not_a_buffer

definition trim_spaces :: "string \<Rightarrow> string" where
  "trim_spaces v =
     rev (dropWhile (\<lambda>c. c = CHR '' '') (rev (dropWhile (\<lambda>c. c = CHR '' '') v)))"

definition media_type :: "string \<Rightarrow> string" where
  "media_type v = toLowerCase (trim_spaces (takeWhile (\<lambda>c. c \<noteq> CHR '';'') v))"

definition octet_stream :: "request \<Rightarrow> bool" where
  "octet_stream req =
     (case content_type req of
        None \<Rightarrow> False
      | Some v \<Rightarrow> media_type v = ''application/octet-stream'')"

definition req_body :: "request \<Rightarrow> parsed_body" where
  "req_body req = (if octet_stream req then Buffer (body req) else Not_a_buffer)"

datatype response =
    Json_error nat string
  | Send_text nat string
  | Send_binary string string buffer
  | Json_saved path nat

text \<open>
  \<open>Json_error s m\<close> is \<open>res.status(s).json({ error: m })\<close>; \<open>Send_text s t\<close> is
  \<open>res.status(s).send(t)\<close>; \<open>Send_binary h c d\<close> is the 200 response that sends
  the bytes \<open>d\<close> with the headers \<open>X-File-Hash: h\<close> and \<open>X-Cache: c\<close>;
  \<open>Json_saved p n\<close> is \<open>res.json({ success: true, path: p, size: n })\<close>.
  A handler ends with a response, with an exception that nothing in the handler catches
  (one of the filesystem, or a \<open>TypeError\<close> with its message), or with an \<open>error\<close>
  event of the child that has no listener. A result is that
  outcome, the filesystem the handler leaves, and the processes it spawned (the command
  and its arguments).
\<close>

datatype outcome =
    Response response
  | Uncaught fs_error
  | Uncaught_TypeError string
  | Unhandled_error_event int

record result =
  reply :: outcome
  disk :: filesystem
  spawned :: "(path \<times> string list) list"

definition finish :: "outcome \<Rightarrow> filesystem \<Rightarrow> (path \<times> string list) list \<Rightarrow> result" where
  "finish r fs ps = \<lparr>reply = r, disk = fs, spawned = ps\<rparr>"

section \<open>The converter job descriptor\<close>

datatype xml = Elem string string | Nil_elem string | Block string "xml list"

fun render :: "xml \<Rightarrow> string" where
  "render (Elem t v) = ''<'' @ t @ ''>'' @ v @ ''</'' @ t @ ''>''"
| "render (Nil_elem t) = ''<'' @ t @ '' xsi:nil='' @ [CHR 0x22] @ ''true'' @ [CHR 0x22] @ '' />''"
| "render (Block t xs) =
     ''<'' @ t @ ''>'' @ [CHR 0x0A] @ concat (map (\<lambda>x. render x @ [CHR 0x0A]) xs) @ ''</'' @ t @ ''>''"

definition xml_document :: "xml list \<Rightarrow> string" where
  "xml_document items =
     ''<?xml version='' @ [CHR 0x22] @ ''1.0'' @ [CHR 0x22] @ '' encoding='' @ [CHR 0x22] @ ''utf-8''
       @ [CHR 0x22] @ ''?>'' @ [CHR 0x0A]
     @ ''<TaskQueueDataConvert xmlns:xsi='' @ [CHR 0x22] @ ''http://www.w3.org/2001/XMLSchema-instance''
       @ [CHR 0x22] @ '' xmlns:xsd='' @ [CHR 0x22] @ ''http://www.w3.org/2001/XMLSchema'' @ [CHR 0x22]
       @ ''>'' @ [CHR 0x0A]
     @ concat (map (\<lambda>x. render x @ [CHR 0x0A]) items)
     @ ''</TaskQueueDataConvert>'' @ [CHR 0x0A]"

definition csv_fields :: "bool \<Rightarrow> xml list" where
  "csv_fields is_csv =
     (if is_csv then [Elem ''m_nCsvTxtEncoding'' ''46'', Elem ''m_nCsvDelimiter'' ''4''] else [])"

definition common_fields :: "env \<Rightarrow> xml list" where
  "common_fields E =
     [Nil_elem ''m_bPaid'',
      Nil_elem ''m_bEmbeddedFonts'',
      Elem ''m_bFromChanges'' ''false'',
      Elem ''m_sFontDir'' (FONT_DATA_DIR E),
      Elem ''m_sThemeDir'' (join [app_dir E, ''editors'', ''sdkjs'', ''slide'', ''themes'']),
      Elem ''m_sJsonParams'' ''{}'',
      Nil_elem ''m_nLcid'',
      Elem ''m_oTimestamp'' (timestamp E),
      Nil_elem ''m_bIsNoBase64'',
      Nil_elem ''m_sConvertToOrigin'',
      Block ''m_oInputLimits'' [],
      Block ''options'' [Elem ''allowNetworkRequest'' ''false'', Elem ''allowPrivateIP'' ''true'']]"

function show_nat :: "nat \<Rightarrow> string" where
  "show_nat n =
     (if n < 10 then [''0123456789'' ! n] else show_nat (n div 10) @ [''0123456789'' ! (n mod 10)])"
  by pat_completeness auto
termination
  by (relation "measure id") auto

declare show_nat.simps [simp del]

definition convert_xmlConfig :: "env \<Rightarrow> path \<Rightarrow> path \<Rightarrow> string \<Rightarrow> xml list" where
  "convert_xmlConfig E inputPath outputPath filename =
     [Elem ''m_sKey'' ''api_conversion'',
      Elem ''m_sFileFrom'' inputPath,
      Elem ''m_sFileTo'' outputPath,
      Elem ''m_sTitle'' filename,
      Elem ''m_nFormatTo'' ''8192'']
     @ csv_fields (toLowerCase (extname filename) = ''.csv'')
     @ common_fields E"

definition save_xmlConfig :: "env \<Rightarrow> path \<Rightarrow> path \<Rightarrow> string \<Rightarrow> nat \<Rightarrow> string \<Rightarrow> xml list" where
  "save_xmlConfig E changesBinPath outputPath filename formatTo ext =
     [Elem ''m_sKey'' ''api_save'',
      Elem ''m_sFileFrom'' changesBinPath,
      Elem ''m_nFormatFrom'' ''8192'',
      Elem ''m_sFileTo'' outputPath,
      Elem ''m_sTitle'' filename,
      Elem ''m_nFormatTo'' (show_nat formatTo)]
     @ csv_fields (ext = ''.csv'')
     @ common_fields E"

section \<open>GET /api/convert\<close>

definition convert_outputDir :: "utils \<Rightarrow> env \<Rightarrow> path \<Rightarrow> path" where
  "convert_outputDir U E filepath = join [app_dir E, ''test'', ''output'', generateFileHash U filepath]"

definition convert_outputPath :: "utils \<Rightarrow> env \<Rightarrow> path \<Rightarrow> path" where
  "convert_outputPath U E filepath = join [convert_outputDir U E filepath, ''Editor.bin'']"

definition convert_paramsPath :: "utils \<Rightarrow> env \<Rightarrow> path \<Rightarrow> path" where
  "convert_paramsPath U E filepath = join [convert_outputDir U E filepath, ''params_temp.xml'']"

definition x2tPath :: "env \<Rightarrow> path" where
  "x2tPath E = join [app_dir E, ''converter'', ''x2t'']"

text \<open>
  The cache check: \<open>fs.existsSync(outputPath)\<close> and then
  \<open>fs.statSync(outputPath).mtimeMs > sourceMtime\<close>.
\<close>

definition cache_hit :: "filesystem \<Rightarrow> path \<Rightarrow> int \<Rightarrow> bool" where
  "cache_hit fs outputPath sourceMtime =
     (existsSync fs outputPath \<and>
      (case statSync fs outputPath of Inl e \<Rightarrow> False | Inr st \<Rightarrow> mtimeMs st > sourceMtime))"

text \<open>The listener of the child's \<open>close\<close> event.\<close>

definition convert_on_close ::
  "path \<Rightarrow> path \<Rightarrow> string \<Rightarrow> int option \<Rightarrow> string \<Rightarrow> filesystem \<Rightarrow> outcome \<times> filesystem" where
  "convert_on_close paramsPath outputPath fileHash exit_code stderr fs =
     (let fs1 = (case unlinkSync fs paramsPath of Inl e \<Rightarrow> fs | Inr fs' \<Rightarrow> fs')
      in if exit_code \<noteq> Some 0 then
           (Response (Send_text 500 (''Conversion failed: '' @ stderr)), fs1)
         else if \<not> existsSync fs1 outputPath then
           (Response (Send_text 500 ''Conversion failed: output file not created''), fs1)
         else
           (case readFileSync fs1 outputPath of
              Inl e \<Rightarrow> (Uncaught e, fs1)
            | Inr binaryData \<Rightarrow> (Response (Send_binary fileHash ''MISS'' binaryData), fs1)))"

text \<open>
  The conversion after a cache miss, up to the spawn: the output directory is created and
  the descriptor written. An exception here leaves the handler; the filesystem it leaves
  behind is returned with it.
\<close>

definition convert_prepare ::
  "utils \<Rightarrow> env \<Rightarrow> filesystem \<Rightarrow> path \<Rightarrow> fs_error \<times> filesystem + filesystem" where
  "convert_prepare U E fs filepath =
     (let outputDir = convert_outputDir U E filepath;
          outputPath = convert_outputPath U E filepath;
          paramsPath = convert_paramsPath U E filepath;
          filename = basename filepath;
          xmlConfig = xml_document (convert_xmlConfig E filepath outputPath filename)
      in case ensure_dir fs (now E) outputDir of
           Inl e \<Rightarrow> Inl (e, fs)
         | Inr fs1 \<Rightarrow>
             (case writeFileSync fs1 (now E) paramsPath (utf8 xmlConfig) of
                Inl e \<Rightarrow> Inl (e, fs1)
              | Inr fs2 \<Rightarrow> Inr fs2))"

text \<open>
  The spawn and the events of the child. No listener is registered for the child's
  \<open>error\<close> event.
\<close>

definition convert_miss :: "utils \<Rightarrow> env \<Rightarrow> filesystem \<Rightarrow> path \<Rightarrow> result" where
  "convert_miss U E fs filepath =
     (let fileHash = generateFileHash U filepath;
          outputPath = convert_outputPath U E filepath;
          paramsPath = convert_paramsPath U E filepath
      in case convert_prepare U E fs filepath of
           Inl (e, fs') \<Rightarrow> finish (Uncaught e) fs' []
         | Inr fs2 \<Rightarrow>
             (case x2t E fs2 paramsPath of
                Spawn_failed e \<Rightarrow> finish (Unhandled_error_event e) fs2 [(x2tPath E, [paramsPath])]
              | Exited exit_code stdout stderr fs3 \<Rightarrow>
                  (case convert_on_close paramsPath outputPath fileHash exit_code stderr fs3 of
                     (r, fs4) \<Rightarrow> finish r fs4 [(x2tPath E, [paramsPath])])))"

definition convert :: "utils \<Rightarrow> env \<Rightarrow> filesystem \<Rightarrow> request \<Rightarrow> result" where
  "convert U E fs req =
     (case query_filepath req of
        None \<Rightarrow> finish (Response (Json_error 400 ''filepath query parameter is required'')) fs []
      | Some filepath \<Rightarrow>
          if filepath = [] then
            finish (Response (Json_error 400 ''filepath query parameter is required'')) fs []
          else if \<not> isAbsolutePath U filepath then
            finish (Response (Json_error 400 ''filepath must be an absolute path'')) fs []
          else if \<not> existsSync fs filepath then
            finish (Response (Json_error 404 ''File not found at absolute path'')) fs []
          else
            (case statSync fs filepath of
               Inl e \<Rightarrow> finish (Uncaught e) fs []
             | Inr st \<Rightarrow>
                 if cache_hit fs (convert_outputPath U E filepath) (mtimeMs st) then
                   (case readFileSync fs (convert_outputPath U E filepath) of
                      Inl e \<Rightarrow> finish (Uncaught e) fs []
                    | Inr binaryData \<Rightarrow>
                        finish (Response (Send_binary (generateFileHash U filepath) ''HIT'' binaryData)) fs [])
                 else convert_miss U E fs filepath))"

section \<open>POST /api/save\<close>

definition save_hashDir :: "env \<Rightarrow> string option \<Rightarrow> path" where
  "save_hashDir E filehash =
     (let outputDir = join [app_dir E, ''test'', ''output'']
      in case filehash of
           None \<Rightarrow> outputDir
         | Some h \<Rightarrow> if h = [] then outputDir else join [outputDir, h])"

definition save_changesBinPath :: "env \<Rightarrow> string option \<Rightarrow> path" where
  "save_changesBinPath E filehash = join [save_hashDir E filehash, ''temp_changes.bin'']"

definition save_paramsPath :: "env \<Rightarrow> string option \<Rightarrow> path" where
  "save_paramsPath E filehash = join [save_hashDir E filehash, ''params_save.xml'']"

text \<open>
  The clean-up of the \<open>close\<close> listener: both deletions stand in one \<open>try\<close> block, so
  a deletion that throws skips what follows it.
\<close>

definition save_cleanup :: "filesystem \<Rightarrow> path \<Rightarrow> path \<Rightarrow> filesystem" where
  "save_cleanup fs paramsPath changesBinPath =
     (case (if existsSync fs paramsPath then unlinkSync fs paramsPath else Inr fs) of
        Inl e \<Rightarrow> fs
      | Inr fs1 \<Rightarrow>
          (case (if existsSync fs1 changesBinPath then unlinkSync fs1 changesBinPath else Inr fs1) of
             Inl e \<Rightarrow> fs1
           | Inr fs2 \<Rightarrow> fs2))"

definition save_on_close ::
  "path \<Rightarrow> path \<Rightarrow> path \<Rightarrow> int option \<Rightarrow> filesystem \<Rightarrow> outcome \<times> filesystem" where
  "save_on_close paramsPath changesBinPath outputPath exit_code fs =
     (let fs1 = save_cleanup fs paramsPath changesBinPath
      in if exit_code \<noteq> Some 0 then
           (Response (Send_text 500 ''Save failed: conversion error''), fs1)
         else if \<not> existsSync fs1 outputPath then
           (Response (Send_text 500 ''Save failed: no output file''), fs1)
         else
           (case statSync fs1 outputPath of
              Inl e \<Rightarrow> (Uncaught e, fs1)
            | Inr st \<Rightarrow> (Response (Json_saved outputPath (size st)), fs1)))"

text \<open>The branch of a payload that carries the signature: written as it is.\<close>

definition save_native :: "env \<Rightarrow> filesystem \<Rightarrow> path \<Rightarrow> buffer \<Rightarrow> result" where
  "save_native E fs outputPath payload =
     (case writeFileSync fs (now E) outputPath payload of
        Inl e \<Rightarrow> finish (Response (Send_text 500 (''Save failed: '' @ message e))) fs []
      | Inr fs1 \<Rightarrow>
          (case statSync fs1 outputPath of
             Inl e \<Rightarrow> finish (Response (Send_text 500 (''Save failed: '' @ message e))) fs1 []
           | Inr st \<Rightarrow> finish (Response (Json_saved outputPath (size st))) fs1 []))"

text \<open>
  The branch of every other payload: the format is looked up from the extension, the
  payload and the descriptor are written into the hash directory (\<open>save_prepare\<close>; an
  exception there leaves the handler), and the converter runs. The listener of the
  child's \<open>error\<close> event only logs; \<open>close\<close> follows it.
\<close>

definition save_prepare ::
  "env \<Rightarrow> filesystem \<Rightarrow> path \<Rightarrow> string option \<Rightarrow> buffer \<Rightarrow> nat \<Rightarrow> string
    \<Rightarrow> fs_error \<times> filesystem + filesystem" where
  "save_prepare E fs filepath filehash payload formatTo ext =
     (let changesBinPath = save_changesBinPath E filehash;
          paramsPath = save_paramsPath E filehash;
          xmlConfig = xml_document
            (save_xmlConfig E changesBinPath filepath (basename filepath) formatTo ext)
      in case writeFileSync fs (now E) changesBinPath payload of
           Inl e \<Rightarrow> Inl (e, fs)
         | Inr fs1 \<Rightarrow>
             (case writeFileSync fs1 (now E) paramsPath (utf8 xmlConfig) of
                Inl e \<Rightarrow> Inl (e, fs1)
              | Inr fs2 \<Rightarrow> Inr fs2))"

definition save_binary ::
  "utils \<Rightarrow> env \<Rightarrow> filesystem \<Rightarrow> path \<Rightarrow> string option \<Rightarrow> buffer \<Rightarrow> result" where
  "save_binary U E fs filepath filehash payload =
     (let ext = toLowerCase (extname filepath)
      in case getOutputFormatInfo U ext of
           None \<Rightarrow> finish (Response (Send_text 400 ''Unsupported file format'')) fs []
         | Some formatInfo \<Rightarrow>
             let changesBinPath = save_changesBinPath E filehash;
                 paramsPath = save_paramsPath E filehash
             in case save_prepare E fs filepath filehash payload (code formatInfo) ext of
                  Inl (e, fs') \<Rightarrow> finish (Uncaught e) fs' []
                | Inr fs2 \<Rightarrow>
                    (case x2t E fs2 paramsPath of
                       Spawn_failed e \<Rightarrow>
                         (case save_on_close paramsPath changesBinPath filepath (Some e) fs2 of
                            (r, fs3) \<Rightarrow> finish r fs3 [(x2tPath E, [paramsPath])])
                     | Exited exit_code stdout stderr fs3 \<Rightarrow>
                         (case save_on_close paramsPath changesBinPath filepath exit_code fs3 of
                            (r, fs4) \<Rightarrow> finish r fs4 [(x2tPath E, [paramsPath])])))"

text \<open>
  The handler: the path checks, the creation of the destination's parent directory, and
  then the first reads of \<open>req.body\<close> (its length, and \<open>req.body.slice(0, 20)\<close> for the
  log). When the body is not a Buffer the call of \<open>slice\<close> throws a \<open>TypeError\<close>, outside
  any \<open>try\<close> block; otherwise the payload is classified.
\<close>

definition save :: "utils \<Rightarrow> env \<Rightarrow> filesystem \<Rightarrow> request \<Rightarrow> result" where
  "save U E fs req =
     (case query_filepath req of
        None \<Rightarrow> finish (Response (Json_error 400 ''filepath query parameter is required'')) fs []
      | Some filepath \<Rightarrow>
          if filepath = [] then
            finish (Response (Json_error 400 ''filepath query parameter is required'')) fs []
          else if \<not> isAbsolutePath U filepath then
            finish (Response (Json_error 400 ''filepath must be an absolute path'')) fs []
          else
            (case ensure_dir fs (now E) (dirname filepath) of
               Inl e \<Rightarrow> finish (Uncaught e) fs []
             | Inr fs1 \<Rightarrow>
                 (case req_body req of
                    Not_a_buffer \<Rightarrow>
                      finish (Uncaught_TypeError ''req.body.slice is not a function'') fs1 []
                  | Buffer payload \<Rightarrow>
                      if isXLSXSignature U payload then save_native E fs1 filepath payload
                      else save_binary U E fs1 filepath (query_filehash req) payload)))"

section \<open>Notions used in the statements\<close>

text \<open>
  A segment that \<open>path.join\<close> appends as it is: not empty, not \<open>.\<close> or \<open>..\<close>, and
  without a slash.
\<close>

definition plain_segment :: "string \<Rightarrow> bool" where
  "plain_segment f = (f \<noteq> [] \<and> f \<noteq> ''.'' \<and> f \<noteq> ''..'' \<and> (\<forall>c \<in> set f. \<not> is_slash c))"

definition is_dir :: "filesystem \<Rightarrow> path \<Rightarrow> bool" where
  "is_dir fs d = (case fs d of Some (Dir m) \<Rightarrow> True | _ \<Rightarrow> False)"

text \<open>The fields of a descriptor: the tags of its elements, and the values under a tag.\<close>

fun tag_of :: "xml \<Rightarrow> string" where
  "tag_of (Elem t v) = t"
| "tag_of (Nil_elem t) = t"
| "tag_of (Block t xs) = t"

definition has_field :: "string \<Rightarrow> xml list \<Rightarrow> bool" where
  "has_field t items = (t \<in> set (map tag_of items))"

definition field_values :: "string \<Rightarrow> xml list \<Rightarrow> string list" where
  "field_values t items =
     concat (map (\<lambda>x. case x of Elem t' v \<Rightarrow> if t' = t then [v] else [] | _ \<Rightarrow> []) items)"

text \<open>
  The text of a descriptor is searched for a piece of markup with \<open>sublist\<close>: the
  piece occurs somewhere in the text, as one block. For a piece that begins with \<open><\<close>,
  \<open>occurs_lt\<close> finds the same by reading the text once: at every \<open><\<close> it compares what
  follows.
\<close>

fun occurs_lt :: "string \<Rightarrow> string \<Rightarrow> bool" where
  "occurs_lt s [] = False"
| "occurs_lt s (c # cs) = ((c = CHR ''<'' \<and> prefix s cs) \<or> occurs_lt s cs)"

text \<open>
  The values that the two templates write into the descriptor, as they are: the
  expressions that the template literals interpolate, the format codes apart.
\<close>

definition convert_values :: "utils \<Rightarrow> env \<Rightarrow> path \<Rightarrow> string list" where
  "convert_values U E filepath =
     [filepath, convert_outputPath U E filepath, basename filepath, FONT_DATA_DIR E,
      join [app_dir E, ''editors'', ''sdkjs'', ''slide'', ''themes''], timestamp E]"

definition save_values :: "env \<Rightarrow> path \<Rightarrow> string option \<Rightarrow> string list" where
  "save_values E filepath filehash =
     [save_changesBinPath E filehash, filepath, basename filepath, FONT_DATA_DIR E,
      join [app_dir E, ''editors'', ''sdkjs'', ''slide'', ''themes''], timestamp E]"

section \<open>Example inputs\<close>

text \<open>
  A server installed in \<open>/srv/app\<close>, a source file \<open>/docs/simple.csv\<close> last modified at
  1000, and the working directory of its fingerprint, with the paths the handlers derive
  from it. The examples run the handlers with the helpers of \<open>model_utils\<close>.
\<close>

definition demo_source :: path where
  "demo_source = ''/docs/simple.csv''"

definition demo_workdir :: path where
  "demo_workdir = ''/srv/app/test/output/852e532ae96ae0752c81d50f32478bed''"

definition demo_artifact :: path where
  "demo_artifact = ''/srv/app/test/output/852e532ae96ae0752c81d50f32478bed/Editor.bin''"

definition demo_descriptor :: path where
  "demo_descriptor = ''/srv/app/test/output/852e532ae96ae0752c81d50f32478bed/params_temp.xml''"

definition demo_changes :: path where
  "demo_changes = ''/srv/app/test/output/852e532ae96ae0752c81d50f32478bed/temp_changes.bin''"

definition demo_save_descriptor :: path where
  "demo_save_descriptor = ''/srv/app/test/output/852e532ae96ae0752c81d50f32478bed/params_save.xml''"

text \<open>
  Three filesystems: before any conversion; with an artifact newer than the source;
  with an artifact exactly as old as the source.
\<close>

definition demo_fs :: filesystem where
  "demo_fs =
     [''/'' \<mapsto> Dir 0, ''/docs'' \<mapsto> Dir 0, ''/srv'' \<mapsto> Dir 0, ''/srv/app'' \<mapsto> Dir 0,
      ''/srv/app/test'' \<mapsto> Dir 0, ''/srv/app/test/output'' \<mapsto> Dir 0,
      ''/docs/simple.csv'' \<mapsto> File [0x61, 0x2C, 0x62, 0x0A] 1000]"

definition demo_fs_cached :: filesystem where
  "demo_fs_cached = demo_fs(demo_workdir \<mapsto> Dir 1500, demo_artifact \<mapsto> File [7, 7] 1500)"

definition demo_fs_stale :: filesystem where
  "demo_fs_stale = demo_fs(demo_workdir \<mapsto> Dir 1000, demo_artifact \<mapsto> File [7, 7] 1000)"

text \<open>
  Four converters: one that writes the artifact and exits with 0, one that exits with 1,
  one that exits with 0 and writes nothing, and one that cannot be started.
\<close>

definition x2t_writes_artifact :: "filesystem \<Rightarrow> path \<Rightarrow> child" where
  "x2t_writes_artifact fs params = Exited (Some 0) [] [] (fs(demo_artifact \<mapsto> File [1, 2, 3] 3000))"

definition x2t_exits_1 :: "filesystem \<Rightarrow> path \<Rightarrow> child" where
  "x2t_exits_1 fs params = Exited (Some 1) [] ''Couldn't open file'' fs"

definition x2t_writes_nothing :: "filesystem \<Rightarrow> path \<Rightarrow> child" where
  "x2t_writes_nothing fs params = Exited (Some 0) [] [] fs"

definition x2t_not_installed :: "filesystem \<Rightarrow> path \<Rightarrow> child" where
  "x2t_not_installed fs params = Spawn_failed (- 2)"

definition demo_env :: "(filesystem \<Rightarrow> path \<Rightarrow> child) \<Rightarrow> env" where
  "demo_env converter =
     \<lparr>app_dir = ''/srv/app'', FONT_DATA_DIR = ''/srv/fonts'', now = 2000,
      timestamp = ''2026-01-01T00:00:00.000Z'', x2t = converter\<rparr>"

definition demo_convert_request :: request where
  "demo_convert_request =
     \<lparr>query_filepath = Some demo_source, query_filehash = None, content_type = None, body = []\<rparr>"

text \<open>
  Save requests that carry the fingerprint of the source and declare their body as
  \<open>application/octet-stream\<close>, and three payloads: the first bytes of a spreadsheet
  archive (a ZIP local file header: 50 4B 03 04 ...), an empty ZIP archive (its
  end-of-central-directory record: 50 4B 05 06 and 18 zero bytes) and the first bytes of
  an editor binary.
\<close>

definition demo_save_request :: "path \<Rightarrow> buffer \<Rightarrow> request" where
  "demo_save_request target payload =
     \<lparr>query_filepath = Some target,
      query_filehash = Some ''852e532ae96ae0752c81d50f32478bed'',
      content_type = Some ''application/octet-stream'',
      body = payload\<rparr>"

definition zip_archive :: buffer where
  "zip_archive = [0x50, 0x4B, 0x03, 0x04, 0x14, 0x00, 0x06, 0x00, 0x08, 0x00]"

definition empty_zip :: buffer where
  "empty_zip = [0x50, 0x4B, 0x05, 0x06] @ replicate 18 0"

definition editor_binary :: buffer where
  "editor_binary = [0x58, 0x4C, 0x53, 0x59, 0x3B, 0x76, 0x31, 0x30, 0x3B, 0x30, 0x3B]"

text \<open>
  The same save request under the media type of a spreadsheet, which no body parser of
  the server accepts.
\<close>

definition xlsx_mime_type :: string where
  "xlsx_mime_type = ''application/vnd.openxmlformats-officedocument.spreadsheetml.sheet''"


text \<open>
  A destination whose directory and file names spell an element of the descriptor: the
  file \<open>m_nCsvTxtEncoding>.xlsx\<close> in the directory \<open><m_nCsvTxtEncoding>46<\<close> of
  \<open>/docs\<close>.
\<close>

definition demo_markup_path :: path where
  "demo_markup_path = ''/docs/<m_nCsvTxtEncoding>46</m_nCsvTxtEncoding>.xlsx''"

section \<open>Content Fingerprinting: the shape of the fingerprint\<close>

lemma length_le_bytes: "length (le_bytes n w) = n"
  by (simp add: le_bytes_def)

lemma length_md5: "length (md5 m) = 16"
  by (simp add: md5_def length_le_bytes split: prod.splits)

lemma length_hex: "length (hex bs) = 2 * length bs"
  by (induction bs) (simp_all add: hex_def hex_byte_def)

lemma hex_digit_in: "hex_digit n \<in> set ''0123456789abcdef''"
proof -
  have "n mod 16 < length ''0123456789abcdef''" by simp
  then show ?thesis unfolding hex_digit_def by (rule nth_mem)
qed

lemma set_hex: "set (hex bs) \<subseteq> set ''0123456789abcdef''"
  using hex_digit_in by (auto simp add: hex_def hex_byte_def)

text \<open>The digest of the model is MD5: the test vector of RFC 1321 for the message abc.\<close>

lemma md5_known_answer: "model_generateFileHash ''abc'' = ''900150983cd24fb0d6963f7d28e17f72''"
  by code_simp

text \<open>
  Claim C8. The fingerprint is a function of the path string and of nothing else (no
  filesystem, no clock and no process state is among its arguments, so equal paths give
  equal fingerprints in every run), and for every path its value is exactly 32
  characters long, each of them a lowercase hexadecimal digit: the rendering of a digest
  of 16 bytes.
\<close>

theorem fingerprint_shape:
  "length (model_generateFileHash p) = 32 \<and>
   set (model_generateFileHash p) \<subseteq> set ''0123456789abcdef'' \<and>
   length (md5 (utf8 p)) = 16"
  using set_hex by (simp add: model_generateFileHash_def length_hex length_md5)

theorem fingerprint_shape_witness:
  "length (model_generateFileHash ''/path/to/file.xlsx'') = 32 \<and>
   set (model_generateFileHash ''/path/to/file.xlsx'') \<subseteq> set ''0123456789abcdef''"
  using fingerprint_shape [of "''/path/to/file.xlsx''"] by simp

section \<open>Paths\<close>

lemma split_slash_nonempty: "split_slash p \<noteq> []"
  by (induction p) (auto split: list.splits)

lemma split_slash_append:
  "split_slash (a @ CHR ''/'' # b) = split_slash a @ split_slash b"
proof (induction a)
  case Nil
  then show ?case by (simp add: is_slash_def)
next
  case (Cons c a)
  then show ?case
    using split_slash_nonempty [of a]
    by (cases "split_slash a") (auto split: list.splits)
qed

lemma split_slash_plain: "\<forall>c \<in> set f. \<not> is_slash c \<Longrightarrow> split_slash f = [f]"
  by (induction f) auto

lemma join_with_snoc:
  "join_with sep (ys @ [f]) = (if ys = [] then f else join_with sep ys @ sep @ f)"
  by (induction sep ys rule: join_with.induct) auto

lemma normalizeString_snoc:
  assumes "plain_segment f"
  shows "\<exists>pre. normalizeString (a @ CHR ''/'' # f) allow = pre @ f"
proof -
  have sp: "split_slash (a @ CHR ''/'' # f) = split_slash a @ [f]"
    using assms by (simp add: split_slash_append split_slash_plain plain_segment_def)
  have "foldl (norm_step allow) [] (split_slash a @ [f]) =
      f # foldl (norm_step allow) [] (split_slash a)"
    using assms by (simp add: norm_step_def plain_segment_def)
  then show ?thesis
    by (simp add: normalizeString_def sp join_with_snoc)
qed

lemma normalizeString_single:
  assumes "plain_segment f"
  shows "normalizeString f allow = f"
  using assms by (simp add: normalizeString_def split_slash_plain plain_segment_def norm_step_def)

text \<open>A file joined to a directory keeps its name at the end of the path.\<close>

lemma join_ends_with:
  assumes "plain_segment f"
  shows "\<exists>pre. join [d, f] = pre @ f"
proof -
  have f: "f \<noteq> []" "\<not> is_slash (last f)"
    using assms by (auto simp add: plain_segment_def)
  show ?thesis
  proof (cases "d = []")
    case True
    have "\<not> is_slash (hd f)" using assms by (cases f) (auto simp add: plain_segment_def)
    then show ?thesis
      using True f assms by (simp add: join_def normalize_def normalizeString_single)
  next
    case False
    obtain pre where pre: "normalizeString (d @ CHR ''/'' # f) (\<not> is_slash (hd d)) = pre @ f"
      using normalizeString_snoc [OF assms] by blast
    show ?thesis
      using False f pre by (simp add: join_def normalize_def Let_def)
  qed
qed

lemma join_last:
  assumes "plain_segment f"
  shows "last (join [d, f]) = last f"
proof -
  obtain pre where "join [d, f] = pre @ f" using join_ends_with [OF assms] by blast
  moreover have "f \<noteq> []" using assms by (simp add: plain_segment_def)
  ultimately show ?thesis by simp
qed

text \<open>The artifact and the descriptor of a conversion are two files.\<close>

lemma convert_paths_differ: "convert_outputPath U E p \<noteq> convert_paramsPath U E p"
proof
  assume "convert_outputPath U E p = convert_paramsPath U E p"
  then have "last (join [convert_outputDir U E p, ''Editor.bin'']) =
      last (join [convert_outputDir U E p, ''params_temp.xml''])"
    by (simp add: convert_outputPath_def convert_paramsPath_def)
  moreover have "plain_segment ''Editor.bin''" "plain_segment ''params_temp.xml''"
    by (simp_all add: plain_segment_def is_slash_def)
  ultimately show False by (simp add: join_last)
qed

lemma basename_no_slash: "\<forall>c \<in> set (basename p). \<not> is_slash c"
  by (auto simp add: basename_def dest: set_takeWhileD)

lemma basename_idem: "basename (basename p) = basename p"
proof -
  let ?b = "basename p"
  have ns: "\<forall>c \<in> set ?b. \<not> is_slash c" by (rule basename_no_slash)
  then have "dropWhile is_slash (rev ?b) = rev ?b"
    by (cases "rev ?b") auto
  then have st: "strip_trailing_slashes ?b = ?b" by (simp add: strip_trailing_slashes_def)
  have tw: "takeWhile (\<lambda>c. \<not> is_slash c) (rev ?b) = rev ?b"
    using ns by (intro takeWhile_eq_all_conv [THEN iffD2]) simp
  have "basename ?b = rev (takeWhile (\<lambda>c. \<not> is_slash c) (rev (strip_trailing_slashes ?b)))"
    by (simp only: basename_def)
  also have "\<dots> = rev (rev ?b)" by (simp only: st tw)
  finally show ?thesis by simp
qed

text \<open>
  The convert handler takes the extension of \<open>path.basename(filepath)\<close>, the save
  handler that of \<open>filepath\<close>: the same extension.
\<close>

lemma extname_basename: "extname (basename p) = extname p"
  by (simp add: extname_def basename_idem)

section \<open>The example inputs, evaluated\<close>

lemma demo_fingerprint:
  "model_generateFileHash ''/docs/simple.csv'' = ''852e532ae96ae0752c81d50f32478bed''"
  by code_simp

lemma demo_joins:
  "join [''/srv/app'', ''test'', ''output'', ''852e532ae96ae0752c81d50f32478bed''] =
     ''/srv/app/test/output/852e532ae96ae0752c81d50f32478bed''"
  "join [''/srv/app/test/output/852e532ae96ae0752c81d50f32478bed'', ''Editor.bin''] =
     ''/srv/app/test/output/852e532ae96ae0752c81d50f32478bed/Editor.bin''"
  "join [''/srv/app/test/output/852e532ae96ae0752c81d50f32478bed'', ''params_temp.xml''] =
     ''/srv/app/test/output/852e532ae96ae0752c81d50f32478bed/params_temp.xml''"
  "join [''/srv/app'', ''converter'', ''x2t''] = ''/srv/app/converter/x2t''"
  "join [''/srv/app'', ''test'', ''output''] = ''/srv/app/test/output''"
  "join [''/srv/app/test/output'', ''852e532ae96ae0752c81d50f32478bed''] =
     ''/srv/app/test/output/852e532ae96ae0752c81d50f32478bed''"
  "join [''/srv/app/test/output/852e532ae96ae0752c81d50f32478bed'', ''temp_changes.bin''] =
     ''/srv/app/test/output/852e532ae96ae0752c81d50f32478bed/temp_changes.bin''"
  "join [''/srv/app/test/output/852e532ae96ae0752c81d50f32478bed'', ''params_save.xml''] =
     ''/srv/app/test/output/852e532ae96ae0752c81d50f32478bed/params_save.xml''"
  by code_simp+

lemma demo_dirnames:
  "ancestors ''/srv/app/test/output/852e532ae96ae0752c81d50f32478bed'' =
     [''/srv/app/test/output/852e532ae96ae0752c81d50f32478bed'', ''/srv/app/test/output'',
      ''/srv/app/test'', ''/srv/app'', ''/srv'', ''/'']"
  "dirname ''/srv/app/test/output/852e532ae96ae0752c81d50f32478bed/params_temp.xml'' =
     ''/srv/app/test/output/852e532ae96ae0752c81d50f32478bed''"
  "dirname ''/srv/app/test/output/852e532ae96ae0752c81d50f32478bed/temp_changes.bin'' =
     ''/srv/app/test/output/852e532ae96ae0752c81d50f32478bed''"
  "dirname ''/srv/app/test/output/852e532ae96ae0752c81d50f32478bed/params_save.xml'' =
     ''/srv/app/test/output/852e532ae96ae0752c81d50f32478bed''"
  "dirname ''/docs/out.xlsx'' = ''/docs''"
  "dirname ''/docs/out.csv'' = ''/docs''"
  "dirname ''/backup/2026/out.pdf'' = ''/backup/2026''"
  "ancestors ''/backup/2026'' = [''/backup/2026'', ''/backup'', ''/'']"
  by code_simp+

lemma demo_extensions:
  "toLowerCase (extname ''/docs/simple.csv'') = ''.csv''"
  "toLowerCase (extname ''/docs/out.xlsx'') = ''.xlsx''"
  "toLowerCase (extname ''/docs/out.csv'') = ''.csv''"
  "toLowerCase (extname ''/backup/2026/out.pdf'') = ''.pdf''"
  "model_getOutputFormatInfo ''.csv'' = Some \<lparr>code = 260, name = ''CSV''\<rparr>"
  "model_getOutputFormatInfo ''.xlsx'' = Some \<lparr>code = 257, name = ''XLSX''\<rparr>"
  "model_getOutputFormatInfo ''.pdf'' = None"
  by code_simp+

lemma demo_absolute:
  "model_isAbsolutePath ''/docs/simple.csv''"
  "model_isAbsolutePath ''/docs/out.xlsx''"
  "model_isAbsolutePath ''/docs/out.csv''"
  "model_isAbsolutePath ''/backup/2026/out.pdf''"
  "\<not> model_isAbsolutePath ''docs/out.xlsx''"
  by code_simp+

lemma demo_signatures:
  "model_isXLSXSignature zip_archive"
  "\<not> model_isXLSXSignature editor_binary"
  "\<not> model_isXLSXSignature empty_zip"
  "length zip_archive = 10"
  "take 4 zip_archive = [0x50, 0x4B, 0x03, 0x04]"
  by (simp_all add: model_isXLSXSignature_def zip_archive_def empty_zip_def editor_binary_def)

lemma demo_media_types:
  "media_type ''application/octet-stream'' = ''application/octet-stream''"
  "media_type ''application/octet-stream; charset=binary'' = ''application/octet-stream''"
  "media_type xlsx_mime_type \<noteq> ''application/octet-stream''"
  by code_simp+

lemma demo_declared:
  "octet_stream \<lparr>query_filepath = a, query_filehash = h,
     content_type = Some ''application/octet-stream'', body = b\<rparr>"
  "\<not> octet_stream \<lparr>query_filepath = a, query_filehash = h,
     content_type = Some xlsx_mime_type, body = b\<rparr>"
  by (simp_all add: octet_stream_def demo_media_types)


lemma demo_convert_paths:
  "convert_outputDir model_utils (demo_env c) demo_source = demo_workdir"
  "convert_outputPath model_utils (demo_env c) demo_source = demo_artifact"
  "convert_paramsPath model_utils (demo_env c) demo_source = demo_descriptor"
  "x2tPath (demo_env c) = ''/srv/app/converter/x2t''"
  by (simp_all add: convert_outputDir_def convert_outputPath_def convert_paramsPath_def x2tPath_def
      model_utils_def demo_env_def demo_source_def demo_workdir_def demo_artifact_def
      demo_descriptor_def demo_fingerprint demo_joins)

lemma demo_save_paths:
  "save_changesBinPath (demo_env c) (Some ''852e532ae96ae0752c81d50f32478bed'') = demo_changes"
  "save_paramsPath (demo_env c) (Some ''852e532ae96ae0752c81d50f32478bed'') = demo_save_descriptor"
  by (simp_all add: save_changesBinPath_def save_paramsPath_def save_hashDir_def demo_env_def
      demo_changes_def demo_save_descriptor_def demo_joins)

lemma demo_request_fields:
  "query_filepath demo_convert_request = Some demo_source"
  "demo_source \<noteq> []"
  "isAbsolutePath model_utils demo_source"
  "generateFileHash model_utils demo_source = ''852e532ae96ae0752c81d50f32478bed''"
  by (simp_all add: demo_convert_request_def demo_source_def model_utils_def demo_absolute
      demo_fingerprint)

lemma demo_source_node:
  "demo_fs demo_source = Some (File [0x61, 0x2C, 0x62, 0x0A] 1000)"
  "demo_fs_cached demo_source = Some (File [0x61, 0x2C, 0x62, 0x0A] 1000)"
  "demo_fs_stale demo_source = Some (File [0x61, 0x2C, 0x62, 0x0A] 1000)"
  by (simp_all add: demo_fs_def demo_fs_cached_def demo_fs_stale_def demo_source_def
      demo_workdir_def demo_artifact_def)

lemma demo_artifact_node:
  "demo_fs demo_artifact = None"
  "demo_fs_cached demo_artifact = Some (File [7, 7] 1500)"
  "demo_fs_stale demo_artifact = Some (File [7, 7] 1000)"
  by (simp_all add: demo_fs_def demo_fs_cached_def demo_fs_stale_def demo_artifact_def)

lemma demo_docs_dir:
  "ensure_dir demo_fs 2000 ''/docs'' = Inr demo_fs"
  "ensure_dir demo_fs_cached 2000 ''/docs'' = Inr demo_fs_cached"
  "is_dir demo_fs_cached ''/docs''"
  "\<not> is_dir demo_fs_cached ''/docs/out.xlsx''"
  by (simp_all add: ensure_dir_def existsSync_def is_dir_def demo_fs_cached_def demo_fs_def
      demo_workdir_def demo_artifact_def)

lemma demo_convert_prepare:
  "convert_prepare model_utils (demo_env c) demo_fs demo_source =
     Inr (demo_fs(demo_workdir \<mapsto> Dir 2000,
                  demo_descriptor \<mapsto> File (utf8 (xml_document
                     (convert_xmlConfig (demo_env c) demo_source demo_artifact (basename demo_source)))) 2000))"
proof -
  have a: "ensure_dir demo_fs 2000 demo_workdir = Inr (demo_fs(demo_workdir \<mapsto> Dir 2000))"
    by (simp add: ensure_dir_def existsSync_def mkdirSync_def mkdir_one_def
      demo_fs_def demo_workdir_def demo_dirnames)
  have b: "writeFileSync (demo_fs(demo_workdir \<mapsto> Dir 2000)) 2000 demo_descriptor d =
      Inr (demo_fs(demo_workdir \<mapsto> Dir 2000, demo_descriptor \<mapsto> File d 2000))" for d
    by (simp add: writeFileSync_def demo_fs_def demo_workdir_def demo_descriptor_def demo_dirnames)
  have n: "now (demo_env c) = 2000" by (simp add: demo_env_def)
  show ?thesis
    by (simp only: convert_prepare_def demo_convert_paths Let_def n a b sum.case)
qed

lemma demo_stale_prepare:
  "convert_prepare model_utils (demo_env c) demo_fs_stale demo_source =
     Inr (demo_fs_stale(demo_descriptor \<mapsto> File (utf8 (xml_document
            (convert_xmlConfig (demo_env c) demo_source demo_artifact (basename demo_source)))) 2000))"
proof -
  have a: "ensure_dir demo_fs_stale 2000 demo_workdir = Inr demo_fs_stale"
    by (simp add: ensure_dir_def existsSync_def demo_fs_stale_def demo_workdir_def demo_artifact_def)
  have b: "writeFileSync demo_fs_stale 2000 demo_descriptor d =
      Inr (demo_fs_stale(demo_descriptor \<mapsto> File d 2000))" for d
    by (simp add: writeFileSync_def demo_fs_stale_def demo_fs_def demo_workdir_def
        demo_descriptor_def demo_artifact_def demo_dirnames)
  have n: "now (demo_env c) = 2000" by (simp add: demo_env_def)
  show ?thesis
    by (simp only: convert_prepare_def demo_convert_paths Let_def n a b sum.case)
qed

lemma demo_save_prepare:
  "save_prepare (demo_env c) demo_fs_cached target (Some ''852e532ae96ae0752c81d50f32478bed'')
       payload fmt ext =
     Inr (demo_fs_cached(demo_changes \<mapsto> File payload 2000,
            demo_save_descriptor \<mapsto> File (utf8 (xml_document
              (save_xmlConfig (demo_env c) demo_changes target (basename target) fmt ext))) 2000))"
proof -
  have a: "writeFileSync demo_fs_cached 2000 demo_changes d =
      Inr (demo_fs_cached(demo_changes \<mapsto> File d 2000))" for d
    by (simp add: writeFileSync_def demo_fs_cached_def demo_fs_def demo_workdir_def
        demo_artifact_def demo_changes_def demo_dirnames)
  have b: "writeFileSync (demo_fs_cached(demo_changes \<mapsto> File d 2000)) 2000 demo_save_descriptor d' =
      Inr (demo_fs_cached(demo_changes \<mapsto> File d 2000, demo_save_descriptor \<mapsto> File d' 2000))"
    for d d'
    by (simp add: writeFileSync_def demo_fs_cached_def demo_fs_def demo_workdir_def
        demo_artifact_def demo_changes_def demo_save_descriptor_def demo_dirnames)
  have n: "now (demo_env c) = 2000" by (simp add: demo_env_def)
  show ?thesis
    by (simp only: save_prepare_def demo_save_paths Let_def n a b sum.case)
qed

section \<open>The handlers, step by step\<close>

lemma cache_hit_iff: "cache_hit fs out s \<longleftrightarrow> (\<exists>n. fs out = Some n \<and> s < mtime_of n)"
  by (auto simp add: cache_hit_def existsSync_def statSync_def split: option.splits)

lemma statSync_Some: "fs p = Some n \<Longrightarrow> \<exists>st. statSync fs p = Inr st \<and> mtimeMs st = mtime_of n"
  by (simp add: statSync_def)

lemma unlink_other: "q \<noteq> p \<Longrightarrow> (case unlinkSync fs p of Inl e \<Rightarrow> fs | Inr fs' \<Rightarrow> fs') q = fs q"
  by (simp add: unlinkSync_def split: option.splits node.splits)

text \<open>A request for an existing source whose artifact is not fresh is converted.\<close>

lemma convert_is_miss:
  assumes "query_filepath req = Some p" and "p \<noteq> []" and "isAbsolutePath U p"
    and "fs p = Some src"
    and "\<not> (\<exists>n. fs (convert_outputPath U E p) = Some n \<and> mtime_of src < mtime_of n)"
  shows "convert U E fs req = convert_miss U E fs p"
proof -
  obtain st where st: "statSync fs p = Inr st" "mtimeMs st = mtime_of src"
    using statSync_Some [of fs p src] assms(4) by blast
  have nh: "\<not> cache_hit fs (convert_outputPath U E p) (mtimeMs st)"
    using assms(5) st by (simp add: cache_hit_iff)
  show ?thesis
    using assms(1-4) st nh by (simp add: convert_def existsSync_def)
qed

lemma convert_miss_not_hit: "reply (convert_miss U E fs p) \<noteq> Response (Send_binary h ''HIT'' d)"
  by (auto simp add: convert_miss_def convert_on_close_def finish_def Let_def
      split: sum.splits prod.splits child.splits if_splits)

text \<open>A save request with an absolute path reaches the classification of its payload.\<close>

lemma save_is_branch:
  assumes "query_filepath req = Some p" and "p \<noteq> []" and "isAbsolutePath U p"
    and "ensure_dir fs (now E) (dirname p) = Inr fs1"
    and "octet_stream req"
  shows "save U E fs req =
           (if isXLSXSignature U (body req) then save_native E fs1 p (body req)
            else save_binary U E fs1 p (query_filehash req) (body req))"
  using assms by (simp add: save_def req_body_def)





lemma save_binary_unsupported:
  assumes "getOutputFormatInfo U (toLowerCase (extname p)) = None"
  shows "save_binary U E fs p h b =
           \<lparr>reply = Response (Send_text 400 ''Unsupported file format''), disk = fs, spawned = []\<rparr>"
  using assms by (simp add: save_binary_def finish_def)

lemma save_binary_spawns:
  assumes "getOutputFormatInfo U (toLowerCase (extname p)) = Some info"
    and "save_prepare E fs p h b (code info) (toLowerCase (extname p)) = Inr fs2"
  shows "spawned (save_binary U E fs p h b) = [(x2tPath E, [save_paramsPath E h])]"
  using assms
  by (simp add: save_binary_def finish_def Let_def split: child.splits prod.splits)

section \<open>Format Registry\<close>

lemma strip_dot_cases: "strip_dot x = e \<Longrightarrow> x = e \<or> x = CHR ''.'' # e"
  by (cases x) (auto simp add: strip_dot_def split: if_splits)

lemma toLowerCase_examples:
  "toLowerCase ''.DOCX'' = ''.docx''" "toLowerCase ''Xls'' = ''xls''" "toLowerCase ''.pdf'' = ''.pdf''"
  "toLowerCase ''.CSV'' = ''.csv''" "toLowerCase ''PpTx'' = ''pptx''"
  by code_simp+

text \<open>
  Claim C6. Whatever the case of its letters, and with or without a leading dot, an
  extension of the word-processor family (doc, docx, odt, txt, rtf, html) is looked up
  as code 65 with the name DOCX, one of the presentation family (ppt, pptx, odp) as 129
  with PPTX, one of the spreadsheet family (xls, xlsx, ods) as 257 with XLSX, and csv as
  260 with CSV. An extension that spells none of them is looked up as the not-found
  value \<open>None\<close>; the lookup is a total function, so it never throws. When the save
  handler reaches the lookup (absolute path, a body of raw bytes without the signature) and the
  lookup of the lower-cased extension of \<open>filepath\<close> finds nothing, the request fails
  with status 400 and the text Unsupported file format, before anything is written
  into the working directory and without any converter process.
\<close>

theorem format_registry_lookup:
  "(\<forall>n. (toLowerCase ext = n \<or> toLowerCase ext = CHR ''.'' # n) \<longrightarrow>
        (n \<in> set word_family \<longrightarrow> model_getOutputFormatInfo ext = Some \<lparr>code = 65, name = ''DOCX''\<rparr>) \<and>
        (n \<in> set slide_family \<longrightarrow> model_getOutputFormatInfo ext = Some \<lparr>code = 129, name = ''PPTX''\<rparr>) \<and>
        (n \<in> set cell_family \<longrightarrow> model_getOutputFormatInfo ext = Some \<lparr>code = 257, name = ''XLSX''\<rparr>) \<and>
        (n = ''csv'' \<longrightarrow> model_getOutputFormatInfo ext = Some \<lparr>code = 260, name = ''CSV''\<rparr>)) \<and>
   ((\<forall>n \<in> set (word_family @ slide_family @ cell_family @ [''csv'']).
        toLowerCase ext \<noteq> n \<and> toLowerCase ext \<noteq> CHR ''.'' # n) \<longrightarrow>
      model_getOutputFormatInfo ext = None) \<and>
   (getOutputFormatInfo U = model_getOutputFormatInfo \<and>
    query_filepath req = Some p \<and> p \<noteq> [] \<and> isAbsolutePath U p \<and>
    ensure_dir fs (now E) (dirname p) = Inr fs1 \<and> octet_stream req \<and> \<not> isXLSXSignature U (body req) \<and>
    model_getOutputFormatInfo (toLowerCase (extname p)) = None \<longrightarrow>
      save U E fs req =
        \<lparr>reply = Response (Send_text 400 ''Unsupported file format''), disk = fs1, spawned = []\<rparr>)"
proof (intro conjI allI impI)
  fix n
  assume sp: "toLowerCase ext = n \<or> toLowerCase ext = CHR ''.'' # n"
  {
    assume "n \<in> set word_family"
    then have "strip_dot (toLowerCase ext) = n"
      using sp by (auto simp add: word_family_def strip_dot_def)
    then show "model_getOutputFormatInfo ext = Some \<lparr>code = 65, name = ''DOCX''\<rparr>"
      using \<open>n \<in> set word_family\<close>
      by (auto simp add: model_getOutputFormatInfo_def word_family_def cell_family_def slide_family_def)
  }
  {
    assume "n \<in> set slide_family"
    then have "strip_dot (toLowerCase ext) = n"
      using sp by (auto simp add: slide_family_def strip_dot_def)
    then show "model_getOutputFormatInfo ext = Some \<lparr>code = 129, name = ''PPTX''\<rparr>"
      using \<open>n \<in> set slide_family\<close>
      by (auto simp add: model_getOutputFormatInfo_def word_family_def cell_family_def slide_family_def)
  }
  {
    assume "n \<in> set cell_family"
    then have "strip_dot (toLowerCase ext) = n"
      using sp by (auto simp add: cell_family_def strip_dot_def)
    then show "model_getOutputFormatInfo ext = Some \<lparr>code = 257, name = ''XLSX''\<rparr>"
      using \<open>n \<in> set cell_family\<close>
      by (auto simp add: model_getOutputFormatInfo_def word_family_def cell_family_def slide_family_def)
  }
  {
    assume "n = ''csv''"
    then have "strip_dot (toLowerCase ext) = n"
      using sp by (auto simp add: strip_dot_def)
    then show "model_getOutputFormatInfo ext = Some \<lparr>code = 260, name = ''CSV''\<rparr>"
      using \<open>n = ''csv''\<close>
      by (auto simp add: model_getOutputFormatInfo_def word_family_def cell_family_def slide_family_def)
  }
next
  assume no: "\<forall>n \<in> set (word_family @ slide_family @ cell_family @ [''csv'']).
        toLowerCase ext \<noteq> n \<and> toLowerCase ext \<noteq> CHR ''.'' # n"
  define e where "e = strip_dot (toLowerCase ext)"
  have "toLowerCase ext = e \<or> toLowerCase ext = CHR ''.'' # e"
    using strip_dot_cases [of "toLowerCase ext" e] e_def by simp
  then have "e \<notin> set (word_family @ slide_family @ cell_family @ [''csv''])"
    using no by blast
  then show "model_getOutputFormatInfo ext = None"
    by (simp add: model_getOutputFormatInfo_def e_def [symmetric])
next
  assume a: "getOutputFormatInfo U = model_getOutputFormatInfo \<and>
    query_filepath req = Some p \<and> p \<noteq> [] \<and> isAbsolutePath U p \<and>
    ensure_dir fs (now E) (dirname p) = Inr fs1 \<and> octet_stream req \<and> \<not> isXLSXSignature U (body req) \<and>
    model_getOutputFormatInfo (toLowerCase (extname p)) = None"
  then have "save U E fs req = save_binary U E fs1 p (query_filehash req) (body req)"
    using save_is_branch [of req p U fs E fs1] by simp
  then show "save U E fs req =
      \<lparr>reply = Response (Send_text 400 ''Unsupported file format''), disk = fs1, spawned = []\<rparr>"
    using a save_binary_unsupported [of U p E fs1 "query_filehash req" "body req"] by simp
qed

theorem format_registry_lookup_witness:
  "model_getOutputFormatInfo ''.DOCX'' = Some \<lparr>code = 65, name = ''DOCX''\<rparr> \<and>
   model_getOutputFormatInfo ''PpTx'' = Some \<lparr>code = 129, name = ''PPTX''\<rparr> \<and>
   model_getOutputFormatInfo ''Xls'' = Some \<lparr>code = 257, name = ''XLSX''\<rparr> \<and>
   model_getOutputFormatInfo ''.CSV'' = Some \<lparr>code = 260, name = ''CSV''\<rparr> \<and>
   model_getOutputFormatInfo ''.pdf'' = None \<and>
   save model_utils (demo_env x2t_exits_1) demo_fs_cached
       (demo_save_request ''/docs/out.pdf'' editor_binary) =
     \<lparr>reply = Response (Send_text 400 ''Unsupported file format''),
      disk = demo_fs_cached, spawned = []\<rparr>"
proof -
  have a: "model_getOutputFormatInfo ''.DOCX'' = Some \<lparr>code = 65, name = ''DOCX''\<rparr>"
    using format_registry_lookup [of "''.DOCX''"]
    by (simp add: toLowerCase_examples word_family_def)
  have b: "model_getOutputFormatInfo ''PpTx'' = Some \<lparr>code = 129, name = ''PPTX''\<rparr>"
    using format_registry_lookup [of "''PpTx''"]
    by (simp add: toLowerCase_examples slide_family_def)
  have c: "model_getOutputFormatInfo ''Xls'' = Some \<lparr>code = 257, name = ''XLSX''\<rparr>"
    using format_registry_lookup [of "''Xls''"]
    by (simp add: toLowerCase_examples cell_family_def)
  have d: "model_getOutputFormatInfo ''.CSV'' = Some \<lparr>code = 260, name = ''CSV''\<rparr>"
    using format_registry_lookup [of "''.CSV''"]
    by (simp add: toLowerCase_examples)
  have e: "model_getOutputFormatInfo ''.pdf'' = None"
    using format_registry_lookup [of "''.pdf''"]
    by (simp add: toLowerCase_examples word_family_def slide_family_def cell_family_def)
  have x: "dirname ''/docs/out.pdf'' = ''/docs''" "toLowerCase (extname ''/docs/out.pdf'') = ''.pdf''"
    "model_isAbsolutePath ''/docs/out.pdf''"
    by code_simp+
  have h: "getOutputFormatInfo model_utils = model_getOutputFormatInfo \<and>
    query_filepath (demo_save_request ''/docs/out.pdf'' editor_binary) = Some ''/docs/out.pdf'' \<and>
    ''/docs/out.pdf'' \<noteq> [] \<and> isAbsolutePath model_utils ''/docs/out.pdf'' \<and>
    ensure_dir demo_fs_cached (now (demo_env x2t_exits_1)) (dirname ''/docs/out.pdf'') =
      Inr demo_fs_cached \<and>
    octet_stream ((demo_save_request ''/docs/out.pdf'' editor_binary)) \<and> \<not> isXLSXSignature model_utils (body (demo_save_request ''/docs/out.pdf'' editor_binary)) \<and>
    model_getOutputFormatInfo (toLowerCase (extname ''/docs/out.pdf'')) = None"
    by (simp add: model_utils_def demo_save_request_def demo_env_def x e demo_docs_dir
        demo_signatures demo_declared)
  have f: "save model_utils (demo_env x2t_exits_1) demo_fs_cached
       (demo_save_request ''/docs/out.pdf'' editor_binary) =
     \<lparr>reply = Response (Send_text 400 ''Unsupported file format''),
      disk = demo_fs_cached, spawned = []\<rparr>"
    using format_registry_lookup [THEN conjunct2, THEN conjunct2, rule_format, OF h] .
  from a b c d e f show ?thesis by blast
qed

section \<open>The CSV fields of the descriptor\<close>

text \<open>The fields of the two templates, as elements.\<close>

lemma csv_fields_present:
  "(has_field ''m_nCsvTxtEncoding'' (convert_xmlConfig E i out f) \<longleftrightarrow> toLowerCase (extname f) = ''.csv'') \<and>
   (has_field ''m_nCsvDelimiter'' (convert_xmlConfig E i out f) \<longleftrightarrow> toLowerCase (extname f) = ''.csv'') \<and>
   field_values ''m_nCsvTxtEncoding'' (convert_xmlConfig E i out f) =
     (if toLowerCase (extname f) = ''.csv'' then [''46''] else []) \<and>
   field_values ''m_nCsvDelimiter'' (convert_xmlConfig E i out f) =
     (if toLowerCase (extname f) = ''.csv'' then [''4''] else []) \<and>
   (has_field ''m_nCsvTxtEncoding'' (save_xmlConfig E b out' f' fmt ext) \<longleftrightarrow> ext = ''.csv'') \<and>
   (has_field ''m_nCsvDelimiter'' (save_xmlConfig E b out' f' fmt ext) \<longleftrightarrow> ext = ''.csv'') \<and>
   field_values ''m_nCsvTxtEncoding'' (save_xmlConfig E b out' f' fmt ext) =
     (if ext = ''.csv'' then [''46''] else []) \<and>
   field_values ''m_nCsvDelimiter'' (save_xmlConfig E b out' f' fmt ext) =
     (if ext = ''.csv'' then [''4''] else [])"
  by (cases "toLowerCase (extname f) = ''.csv''"; cases "ext = ''.csv''";
      simp add: has_field_def field_values_def convert_xmlConfig_def save_xmlConfig_def
        csv_fields_def common_fields_def)

text \<open>The descriptor that the converter finds on disk is the rendering of those fields.\<close>

lemma convert_prepare_descriptor:
  "convert_prepare U E fs p = Inr fs2 \<Longrightarrow>
   fs2 (convert_paramsPath U E p) =
     Some (File (utf8 (xml_document
       (convert_xmlConfig E p (convert_outputPath U E p) (basename p)))) (now E))"
  by (auto simp add: convert_prepare_def Let_def writeFileSync_def
      split: sum.splits option.splits node.splits)

lemma save_prepare_descriptor:
  "save_prepare E fs p h b fmt ext = Inr fs2 \<Longrightarrow>
   fs2 (save_paramsPath E h) =
     Some (File (utf8 (xml_document
       (save_xmlConfig E (save_changesBinPath E h) p (basename p) fmt ext))) (now E))"
  by (auto simp add: save_prepare_def Let_def writeFileSync_def
      split: sum.splits option.splits node.splits)

text \<open>
  Reading the text: a piece of markup that begins with \<open><\<close> and has no other \<open><\<close> can
  only begin where the text has a \<open><\<close>. Where a value is followed by the \<open><\<close> of its
  closing tag, the piece is either inside the value or in what follows it.
\<close>

lemma sublist_lt: "sublist (CHR ''<'' # s) t = occurs_lt s t"
  by (induction t) (auto simp add: sublist_Cons_right)

lemma occurs_lt_skip: "CHR ''<'' \<notin> set v \<Longrightarrow> occurs_lt s (v @ r) = occurs_lt s r"
  by (induction v) auto

lemma prefix_before_lt:
  assumes "CHR ''<'' \<notin> set s"
  shows "prefix s (v @ CHR ''<'' # r) = prefix s v"
proof
  assume "prefix s (v @ CHR ''<'' # r)"
  then consider "prefix s v" | us where "s = v @ us" "prefix us (CHR ''<'' # r)"
    by (auto simp add: prefix_append)
  then show "prefix s v"
  proof cases
    case 1
    then show ?thesis .
  next
    case 2
    then show ?thesis using assms by (cases us) auto
  qed
next
  assume "prefix s v"
  then show "prefix s (v @ CHR ''<'' # r)" by (simp add: prefix_prefix)
qed

lemma occurs_lt_value:
  assumes "CHR ''<'' \<notin> set s"
  shows "occurs_lt s (v @ CHR ''<'' # r) = (occurs_lt s v \<or> occurs_lt s (CHR ''<'' # r))"
  using assms by (induction v) (auto simp add: prefix_before_lt)

text \<open>The decimal spelling of a format code has no \<open><\<close>.\<close>

lemma set_show_nat: "set (show_nat n) \<subseteq> set ''0123456789''"
proof (induction n rule: show_nat.induct)
  case (1 n)
  have d: "''0123456789'' ! k \<in> set ''0123456789''" if "k < 10" for k
    using that nth_mem [of k "''0123456789''"] by simp
  show ?case
  proof (cases "n < 10")
    case True
    then show ?thesis using d [of n] by (subst show_nat.simps) simp
  next
    case False
    then show ?thesis using 1 d [of "n mod 10"] by (subst show_nat.simps) simp
  qed
qed

lemma no_lt_show_nat: "CHR ''<'' \<notin> set (show_nat n)"
  using set_show_nat [of n] by auto

text \<open>
  The text of either template contains the opening tag of a CSV field exactly when the
  extension is \<open>.csv\<close> or one of the values written into the template contains it.
\<close>

lemma convert_text_tag:
  "sublist ''<m_nCsvTxtEncoding>'' (xml_document (convert_xmlConfig E inp out f)) =
     (toLowerCase (extname f) = ''.csv'' \<or>
      (\<exists>v \<in> set [inp, out, f, FONT_DATA_DIR E,
          join [app_dir E, ''editors'', ''sdkjs'', ''slide'', ''themes''], timestamp E].
         sublist ''<m_nCsvTxtEncoding>'' v))"
  apply (simp add: xml_document_def convert_xmlConfig_def csv_fields_def common_fields_def
        sublist_lt occurs_lt_value)
  done

lemma save_text_tag:
  "sublist ''<m_nCsvTxtEncoding>'' (xml_document (save_xmlConfig E inp out f fmt ext)) =
     (ext = ''.csv'' \<or>
      (\<exists>v \<in> set [inp, out, f, FONT_DATA_DIR E,
          join [app_dir E, ''editors'', ''sdkjs'', ''slide'', ''themes''], timestamp E].
         sublist ''<m_nCsvTxtEncoding>'' v))"
  using no_lt_show_nat [of fmt]
  apply (simp add: xml_document_def save_xmlConfig_def csv_fields_def common_fields_def
        sublist_lt occurs_lt_value occurs_lt_skip)
  done

lemma convert_text_delimiter:
  "sublist ''<m_nCsvDelimiter>'' (xml_document (convert_xmlConfig E inp out f)) =
     (toLowerCase (extname f) = ''.csv'' \<or>
      (\<exists>v \<in> set [inp, out, f, FONT_DATA_DIR E,
          join [app_dir E, ''editors'', ''sdkjs'', ''slide'', ''themes''], timestamp E].
         sublist ''<m_nCsvDelimiter>'' v))"
  by (simp add: xml_document_def convert_xmlConfig_def csv_fields_def common_fields_def
        sublist_lt occurs_lt_value)

lemma save_text_delimiter:
  "sublist ''<m_nCsvDelimiter>'' (xml_document (save_xmlConfig E inp out f fmt ext)) =
     (ext = ''.csv'' \<or>
      (\<exists>v \<in> set [inp, out, f, FONT_DATA_DIR E,
          join [app_dir E, ''editors'', ''sdkjs'', ''slide'', ''themes''], timestamp E].
         sublist ''<m_nCsvDelimiter>'' v))"
  using no_lt_show_nat [of fmt]
  by (simp add: xml_document_def save_xmlConfig_def csv_fields_def common_fields_def
        sublist_lt occurs_lt_value occurs_lt_skip)

text \<open>Every element of a template is in the text, as it is rendered.\<close>

lemma sublist_in_lines:
  assumes "x \<in> set items"
  shows "sublist (g x) (concat (map (\<lambda>x. g x @ e) items))"
proof -
  obtain ys zs where i: "items = ys @ x # zs"
    using assms by (auto simp add: in_set_conv_decomp)
  have "concat (map (\<lambda>x. g x @ e) items) =
      concat (map (\<lambda>x. g x @ e) ys) @ g x @ (e @ concat (map (\<lambda>x. g x @ e) zs))"
    by (simp add: i)
  then show ?thesis by (simp only: sublist_appendI)
qed

lemma sublist_prepend: "sublist xs ys \<Longrightarrow> sublist xs (ps @ ys)"
  unfolding sublist_def by (metis append.assoc)

lemma render_in_document:
  assumes "x \<in> set items"
  shows "sublist (render x) (xml_document items)"
proof -
  have "sublist (concat (map (\<lambda>x. render x @ [CHR 0x0A]) items)) (xml_document items)"
    unfolding xml_document_def by (intro sublist_append_rightI sublist_prepend)
  then show ?thesis
    using sublist_in_lines [OF assms, of render "[CHR 0x0A]"] sublist_order.order_trans by blast
qed

lemma csv_elements_in_text:
  "toLowerCase (extname f) = ''.csv'' \<Longrightarrow>
     sublist ''<m_nCsvTxtEncoding>46</m_nCsvTxtEncoding>'' (xml_document (convert_xmlConfig E inp out f)) \<and>
     sublist ''<m_nCsvDelimiter>4</m_nCsvDelimiter>'' (xml_document (convert_xmlConfig E inp out f))"
  "ext = ''.csv'' \<Longrightarrow>
     sublist ''<m_nCsvTxtEncoding>46</m_nCsvTxtEncoding>'' (xml_document (save_xmlConfig E inp out f fmt ext)) \<and>
     sublist ''<m_nCsvDelimiter>4</m_nCsvDelimiter>'' (xml_document (save_xmlConfig E inp out f fmt ext))"
proof -
  assume c: "toLowerCase (extname f) = ''.csv''"
  have "Elem ''m_nCsvTxtEncoding'' ''46'' \<in> set (convert_xmlConfig E inp out f)"
    "Elem ''m_nCsvDelimiter'' ''4'' \<in> set (convert_xmlConfig E inp out f)"
    using c by (simp_all add: convert_xmlConfig_def csv_fields_def)
  then show "sublist ''<m_nCsvTxtEncoding>46</m_nCsvTxtEncoding>'' (xml_document (convert_xmlConfig E inp out f)) \<and>
     sublist ''<m_nCsvDelimiter>4</m_nCsvDelimiter>'' (xml_document (convert_xmlConfig E inp out f))"
    using render_in_document [of "Elem ''m_nCsvTxtEncoding'' ''46''" "convert_xmlConfig E inp out f"]
      render_in_document [of "Elem ''m_nCsvDelimiter'' ''4''" "convert_xmlConfig E inp out f"]
    by simp
next
  assume c: "ext = ''.csv''"
  have "Elem ''m_nCsvTxtEncoding'' ''46'' \<in> set (save_xmlConfig E inp out f fmt ext)"
    "Elem ''m_nCsvDelimiter'' ''4'' \<in> set (save_xmlConfig E inp out f fmt ext)"
    using c by (simp_all add: save_xmlConfig_def csv_fields_def)
  then show "sublist ''<m_nCsvTxtEncoding>46</m_nCsvTxtEncoding>'' (xml_document (save_xmlConfig E inp out f fmt ext)) \<and>
     sublist ''<m_nCsvDelimiter>4</m_nCsvDelimiter>'' (xml_document (save_xmlConfig E inp out f fmt ext))"
    using render_in_document [of "Elem ''m_nCsvTxtEncoding'' ''46''" "save_xmlConfig E inp out f fmt ext"]
      render_in_document [of "Elem ''m_nCsvDelimiter'' ''4''" "save_xmlConfig E inp out f fmt ext"]
    by simp
qed

lemma markup_path_facts:
  "toLowerCase (extname demo_markup_path) = ''.xlsx''"
  "basename demo_markup_path = ''m_nCsvTxtEncoding>.xlsx''"
  "model_isAbsolutePath demo_markup_path"
  "dirname demo_markup_path = ''/docs/<m_nCsvTxtEncoding>46<''"
  by code_simp+

lemma markup_in_descriptor:
  "sublist ''<m_nCsvTxtEncoding>46</m_nCsvTxtEncoding>''
     (xml_document (save_xmlConfig E demo_changes demo_markup_path f fmt ext))"
  "sublist ''<m_nCsvTxtEncoding>46</m_nCsvTxtEncoding>''
     (xml_document (convert_xmlConfig E demo_markup_path out f))"
  by (simp_all add: xml_document_def save_xmlConfig_def convert_xmlConfig_def sublist_lt
      demo_markup_path_def demo_changes_def)

lemma demo_values:
  "join [''/srv/app'', ''editors'', ''sdkjs'', ''slide'', ''themes''] = ''/srv/app/editors/sdkjs/slide/themes''"
  "basename ''/docs/out.xlsx'' = ''out.xlsx''"
  by code_simp+

text \<open>
  Claim C7 as it is stated fails on the text of the descriptor, because the values are
  written into the template as they are. The destination \<open>demo_markup_path\<close> has the
  extension \<open>.xlsx\<close>, and the descriptor that the save handler writes for it contains
  \<open><m_nCsvTxtEncoding>46</m_nCsvTxtEncoding>\<close>, inside the element of the destination's
  path; so does the descriptor that the convert handler generates for that path.
\<close>

theorem markup_in_path_reaches_descriptor:
  "toLowerCase (extname demo_markup_path) = ''.xlsx'' \<and>
   save_prepare (demo_env x2t_exits_1) demo_fs_cached demo_markup_path
       (Some ''852e532ae96ae0752c81d50f32478bed'') editor_binary 257 ''.xlsx'' =
     Inr (demo_fs_cached(demo_changes \<mapsto> File editor_binary 2000,
            demo_save_descriptor \<mapsto> File (utf8 (xml_document
              (save_xmlConfig (demo_env x2t_exits_1) demo_changes demo_markup_path
                 (basename demo_markup_path) 257 ''.xlsx''))) 2000)) \<and>
   sublist ''<m_nCsvTxtEncoding>46</m_nCsvTxtEncoding>''
     (xml_document (save_xmlConfig (demo_env x2t_exits_1) demo_changes demo_markup_path
        (basename demo_markup_path) 257 ''.xlsx'')) \<and>
   sublist ''<m_nCsvTxtEncoding>46</m_nCsvTxtEncoding>''
     (xml_document (convert_xmlConfig (demo_env x2t_exits_1) demo_markup_path
        (convert_outputPath model_utils (demo_env x2t_exits_1) demo_markup_path)
        (basename demo_markup_path)))"
  using markup_path_facts(1) demo_save_prepare [of x2t_exits_1 demo_markup_path editor_binary 257 "''.xlsx''"]
    markup_in_descriptor
  by blast

text \<open>
  Claim C7, amended. The text of the descriptor that the convert handler generates for
  \<open>filepath\<close>, and of the one that the save handler generates, contains
  \<open><m_nCsvTxtEncoding>\<close> (and likewise \<open><m_nCsvDelimiter>\<close>) if and only if the
  lower-cased extension of \<open>filepath\<close> is \<open>.csv\<close>, or one of the values that the
  template writes into the descriptor contains it; so for every request whose values do
  not spell the tag, the field is in the descriptor exactly when the extension is
  \<open>.csv\<close>. When the extension is \<open>.csv\<close> the text contains the elements
  \<open><m_nCsvTxtEncoding>46</m_nCsvTxtEncoding>\<close> and \<open><m_nCsvDelimiter>4</m_nCsvDelimiter>\<close>.
  Each template has the two elements once, with the values 46 and 4, exactly when the
  extension is \<open>.csv\<close>, and the file that the converter is given holds that text.
\<close>

theorem descriptor_csv_fields:
  "(sublist ''<m_nCsvTxtEncoding>''
      (xml_document (convert_xmlConfig E p (convert_outputPath U E p) (basename p)))
     \<longleftrightarrow> toLowerCase (extname p) = ''.csv'' \<or>
         (\<exists>v \<in> set (convert_values U E p). sublist ''<m_nCsvTxtEncoding>'' v)) \<and>
   (sublist ''<m_nCsvDelimiter>''
      (xml_document (convert_xmlConfig E p (convert_outputPath U E p) (basename p)))
     \<longleftrightarrow> toLowerCase (extname p) = ''.csv'' \<or>
         (\<exists>v \<in> set (convert_values U E p). sublist ''<m_nCsvDelimiter>'' v)) \<and>
   (toLowerCase (extname p) = ''.csv'' \<longrightarrow>
      sublist ''<m_nCsvTxtEncoding>46</m_nCsvTxtEncoding>''
        (xml_document (convert_xmlConfig E p (convert_outputPath U E p) (basename p))) \<and>
      sublist ''<m_nCsvDelimiter>4</m_nCsvDelimiter>''
        (xml_document (convert_xmlConfig E p (convert_outputPath U E p) (basename p)))) \<and>
   field_values ''m_nCsvTxtEncoding'' (convert_xmlConfig E p (convert_outputPath U E p) (basename p)) =
     (if toLowerCase (extname p) = ''.csv'' then [''46''] else []) \<and>
   field_values ''m_nCsvDelimiter'' (convert_xmlConfig E p (convert_outputPath U E p) (basename p)) =
     (if toLowerCase (extname p) = ''.csv'' then [''4''] else []) \<and>
   (sublist ''<m_nCsvTxtEncoding>''
      (xml_document
         (save_xmlConfig E (save_changesBinPath E h) q (basename q) fmt (toLowerCase (extname q))))
     \<longleftrightarrow> toLowerCase (extname q) = ''.csv'' \<or>
         (\<exists>v \<in> set (save_values E q h). sublist ''<m_nCsvTxtEncoding>'' v)) \<and>
   (sublist ''<m_nCsvDelimiter>''
      (xml_document
         (save_xmlConfig E (save_changesBinPath E h) q (basename q) fmt (toLowerCase (extname q))))
     \<longleftrightarrow> toLowerCase (extname q) = ''.csv'' \<or>
         (\<exists>v \<in> set (save_values E q h). sublist ''<m_nCsvDelimiter>'' v)) \<and>
   (toLowerCase (extname q) = ''.csv'' \<longrightarrow>
      sublist ''<m_nCsvTxtEncoding>46</m_nCsvTxtEncoding>''
        (xml_document
           (save_xmlConfig E (save_changesBinPath E h) q (basename q) fmt (toLowerCase (extname q)))) \<and>
      sublist ''<m_nCsvDelimiter>4</m_nCsvDelimiter>''
        (xml_document
           (save_xmlConfig E (save_changesBinPath E h) q (basename q) fmt (toLowerCase (extname q))))) \<and>
   field_values ''m_nCsvTxtEncoding''
      (save_xmlConfig E (save_changesBinPath E h) q (basename q) fmt (toLowerCase (extname q))) =
     (if toLowerCase (extname q) = ''.csv'' then [''46''] else []) \<and>
   field_values ''m_nCsvDelimiter''
      (save_xmlConfig E (save_changesBinPath E h) q (basename q) fmt (toLowerCase (extname q))) =
     (if toLowerCase (extname q) = ''.csv'' then [''4''] else []) \<and>
   (convert_prepare U E fs p = Inr fs2 \<longrightarrow>
      fs2 (convert_paramsPath U E p) =
        Some (File (utf8 (xml_document
          (convert_xmlConfig E p (convert_outputPath U E p) (basename p)))) (now E))) \<and>
   (save_prepare E fs' q h b fmt (toLowerCase (extname q)) = Inr fs2' \<longrightarrow>
      fs2' (save_paramsPath E h) =
        Some (File (utf8 (xml_document
          (save_xmlConfig E (save_changesBinPath E h) q (basename q) fmt (toLowerCase (extname q)))))
          (now E)))"
proof -
  note ct = convert_text_tag [of E p "convert_outputPath U E p" "basename p"]
    convert_text_delimiter [of E p "convert_outputPath U E p" "basename p"]
  note st = save_text_tag [of E "save_changesBinPath E h" q "basename q" fmt "toLowerCase (extname q)"]
    save_text_delimiter [of E "save_changesBinPath E h" q "basename q" fmt "toLowerCase (extname q)"]
  note el = csv_elements_in_text(1) [of "basename p" E p "convert_outputPath U E p"]
    csv_elements_in_text(2) [of "toLowerCase (extname q)" E "save_changesBinPath E h" q "basename q" fmt]
  note fv = csv_fields_present [of E p "convert_outputPath U E p" "basename p"
      "save_changesBinPath E h" q "basename q" fmt "toLowerCase (extname q)"]
  have cv: "set (convert_values U E p) =
      set [p, convert_outputPath U E p, basename p, FONT_DATA_DIR E,
        join [app_dir E, ''editors'', ''sdkjs'', ''slide'', ''themes''], timestamp E]"
    by (simp only: convert_values_def)
  have sv: "set (save_values E q h) =
      set [save_changesBinPath E h, q, basename q, FONT_DATA_DIR E,
        join [app_dir E, ''editors'', ''sdkjs'', ''slide'', ''themes''], timestamp E]"
    by (simp only: save_values_def)
  show ?thesis
    using fv el convert_prepare_descriptor [of U E fs p fs2]
      save_prepare_descriptor [of E fs' q h b fmt "toLowerCase (extname q)" fs2']
    by (simp only: ct st cv sv extname_basename) simp
qed

theorem descriptor_csv_fields_witness:
  "sublist ''<m_nCsvTxtEncoding>46</m_nCsvTxtEncoding>''
     (xml_document (convert_xmlConfig (demo_env x2t_exits_1) demo_source demo_artifact
        (basename demo_source))) \<and>
   sublist ''<m_nCsvDelimiter>4</m_nCsvDelimiter>''
     (xml_document (convert_xmlConfig (demo_env x2t_exits_1) demo_source demo_artifact
        (basename demo_source))) \<and>
   \<not> sublist ''<m_nCsvTxtEncoding>''
     (xml_document (save_xmlConfig (demo_env x2t_exits_1) demo_changes ''/docs/out.xlsx''
        (basename ''/docs/out.xlsx'') 257 ''.xlsx'')) \<and>
   \<not> sublist ''<m_nCsvDelimiter>''
     (xml_document (save_xmlConfig (demo_env x2t_exits_1) demo_changes ''/docs/out.xlsx''
        (basename ''/docs/out.xlsx'') 257 ''.xlsx'')) \<and>
   field_values ''m_nCsvTxtEncoding''
      (convert_xmlConfig (demo_env x2t_exits_1) demo_source demo_artifact (basename demo_source)) = [''46''] \<and>
   (demo_fs(demo_workdir \<mapsto> Dir 2000,
            demo_descriptor \<mapsto> File (utf8 (xml_document
              (convert_xmlConfig (demo_env x2t_exits_1) demo_source demo_artifact
                 (basename demo_source)))) 2000)) demo_descriptor =
     Some (File (utf8 (xml_document
       (convert_xmlConfig (demo_env x2t_exits_1) demo_source demo_artifact (basename demo_source))))
       2000)"
proof -
  let ?E = "demo_env x2t_exits_1"
  let ?h = "Some ''852e532ae96ae0752c81d50f32478bed''"
  have s: "toLowerCase (extname demo_source) = ''.csv''"
    by (simp add: demo_source_def demo_extensions)
  have n: "now ?E = 2000" by (simp add: demo_env_def)
  have e: "app_dir ?E = ''/srv/app''" "FONT_DATA_DIR ?E = ''/srv/fonts''"
    "timestamp ?E = ''2026-01-01T00:00:00.000Z''"
    by (simp_all add: demo_env_def)
  have v: "\<not> (\<exists>v \<in> set (save_values ?E ''/docs/out.xlsx'' ?h). sublist ''<m_nCsvTxtEncoding>'' v)"
    "\<not> (\<exists>v \<in> set (save_values ?E ''/docs/out.xlsx'' ?h). sublist ''<m_nCsvDelimiter>'' v)"
    by (simp_all add: save_values_def demo_save_paths demo_changes_def e demo_values sublist_lt)
  note t = descriptor_csv_fields [where E = ?E and p = demo_source and U = model_utils
      and h = ?h and q = "''/docs/out.xlsx''" and fmt = 257 and fs = demo_fs
      and ?fs2.0 = "demo_fs(demo_workdir \<mapsto> Dir 2000,
            demo_descriptor \<mapsto> File (utf8 (xml_document
              (convert_xmlConfig ?E demo_source demo_artifact (basename demo_source)))) 2000)"]
  show ?thesis
    using t v demo_convert_prepare [of x2t_exits_1]
    by (simp add: s n demo_extensions demo_convert_paths demo_save_paths)
qed

section \<open>The cache rule of the convert handler\<close>

text \<open>
  Claim C1. For a convert request on an existing absolute source path: when the artifact
  \<open>Editor.bin\<close> of the working directory is a file whose modification time is strictly
  greater than the source's, its bytes are sent as they are (\<open>X-Cache: HIT\<close>), the
  filesystem is left as it was and no converter is spawned; a response is a cache hit if
  and only if the artifact is such a file. In every other case named by the claim (no
  artifact, or one whose modification time is equal to or older than the source's), once
  the working directory and the descriptor are written, the converter is spawned, once,
  on the descriptor; and when it exits with code 0 and has left an artifact file, the
  bytes of that file, read back after the run, are sent (\<open>X-Cache: MISS\<close>).
\<close>

theorem convert_cache_rule:
  assumes "query_filepath req = Some p" and "p \<noteq> []" and "isAbsolutePath U p"
    and "fs p = Some src"
  shows "(\<forall>d m. fs (convert_outputPath U E p) = Some (File d m) \<and> mtime_of src < m \<longrightarrow>
            convert U E fs req =
              \<lparr>reply = Response (Send_binary (generateFileHash U p) ''HIT'' d), disk = fs, spawned = []\<rparr>) \<and>
         ((\<exists>h d. reply (convert U E fs req) = Response (Send_binary h ''HIT'' d)) \<longleftrightarrow>
            (\<exists>d m. fs (convert_outputPath U E p) = Some (File d m) \<and> mtime_of src < m)) \<and>
         (\<forall>fs2. \<not> (\<exists>n. fs (convert_outputPath U E p) = Some n \<and> mtime_of src < mtime_of n) \<and>
               convert_prepare U E fs p = Inr fs2 \<longrightarrow>
            spawned (convert U E fs req) = [(x2tPath E, [convert_paramsPath U E p])] \<and>
            (\<forall>out err fs3 d m.
               x2t E fs2 (convert_paramsPath U E p) = Exited (Some 0) out err fs3 \<and>
               fs3 (convert_outputPath U E p) = Some (File d m) \<longrightarrow>
               reply (convert U E fs req) = Response (Send_binary (generateFileHash U p) ''MISS'' d)))"
proof -
  let ?out = "convert_outputPath U E p"
  let ?params = "convert_paramsPath U E p"
  obtain st where st: "statSync fs p = Inr st" "mtimeMs st = mtime_of src"
    using statSync_Some [of fs p src] assms(4) by blast
  have ex: "existsSync fs p" using assms(4) by (simp add: existsSync_def)
  have hit: "convert U E fs req =
      \<lparr>reply = Response (Send_binary (generateFileHash U p) ''HIT'' d), disk = fs, spawned = []\<rparr>"
    if "fs ?out = Some (File d m)" "mtime_of src < m" for d m
  proof -
    have "cache_hit fs ?out (mtime_of src)"
      using that by (auto simp add: cache_hit_iff mtime_of_def)
    then show ?thesis
      using assms ex st that by (simp add: convert_def finish_def readFileSync_def)
  qed
  have dir: "\<forall>h d. reply (convert U E fs req) \<noteq> Response (Send_binary h ''HIT'' d)"
    if "fs ?out = Some (Dir m)" "mtime_of src < m" for m
  proof -
    have "cache_hit fs ?out (mtime_of src)"
      using that by (auto simp add: cache_hit_iff mtime_of_def)
    then show ?thesis
      using assms ex st that by (simp add: convert_def finish_def readFileSync_def)
  qed
  have iff: "(\<exists>h d. reply (convert U E fs req) = Response (Send_binary h ''HIT'' d)) \<longleftrightarrow>
            (\<exists>d m. fs ?out = Some (File d m) \<and> mtime_of src < m)"
  proof
    assume l: "\<exists>h d. reply (convert U E fs req) = Response (Send_binary h ''HIT'' d)"
    show "\<exists>d m. fs ?out = Some (File d m) \<and> mtime_of src < m"
    proof (cases "\<exists>n. fs ?out = Some n \<and> mtime_of src < mtime_of n")
      case True
      then obtain n where n: "fs ?out = Some n" "mtime_of src < mtime_of n"
        by blast
      show ?thesis
      proof (cases n)
        case (File d m)
        then show ?thesis using n by (simp add: mtime_of_def)
      next
        case (Dir m)
        then show ?thesis using n l dir [of m] by (simp add: mtime_of_def)
      qed
    next
      case False
      then have "convert U E fs req = convert_miss U E fs p"
        using convert_is_miss [of req p U fs src E] assms by blast
      then show ?thesis using l convert_miss_not_hit [of U E fs p] by auto
    qed
  next
    assume "\<exists>d m. fs ?out = Some (File d m) \<and> mtime_of src < m"
    then show "\<exists>h d. reply (convert U E fs req) = Response (Send_binary h ''HIT'' d)"
      using hit by fastforce
  qed
  have conv: "spawned (convert U E fs req) = [(x2tPath E, [?params])] \<and>
            (\<forall>out err fs3 d m.
               x2t E fs2 ?params = Exited (Some 0) out err fs3 \<and> fs3 ?out = Some (File d m) \<longrightarrow>
               reply (convert U E fs req) = Response (Send_binary (generateFileHash U p) ''MISS'' d))"
    if nf: "\<not> (\<exists>n. fs ?out = Some n \<and> mtime_of src < mtime_of n)"
      and prep: "convert_prepare U E fs p = Inr fs2" for fs2
  proof -
    have m: "convert U E fs req = convert_miss U E fs p"
      using convert_is_miss [of req p U fs src E] assms nf by blast
    have s: "spawned (convert_miss U E fs p) = [(x2tPath E, [?params])]"
      using prep by (simp add: convert_miss_def finish_def Let_def split: child.splits prod.splits)
    have r: "reply (convert_miss U E fs p) = Response (Send_binary (generateFileHash U p) ''MISS'' d)"
      if "x2t E fs2 ?params = Exited (Some 0) out err fs3" "fs3 ?out = Some (File d m)"
      for out err fs3 d m
    proof -
      have "(case unlinkSync fs3 ?params of Inl e \<Rightarrow> fs3 | Inr fs' \<Rightarrow> fs') ?out = Some (File d m)"
        using that(2) convert_paths_differ [of U E p] by (simp add: unlink_other)
      then show ?thesis
        using prep that(1)
        by (simp add: convert_miss_def convert_on_close_def finish_def existsSync_def
            readFileSync_def Let_def)
    qed
    show ?thesis using m s r by auto
  qed
  show ?thesis using hit iff conv by blast
qed

theorem convert_cache_rule_witness:
  "convert model_utils (demo_env x2t_exits_1) demo_fs_cached demo_convert_request =
     \<lparr>reply = Response (Send_binary ''852e532ae96ae0752c81d50f32478bed'' ''HIT'' [7, 7]),
      disk = demo_fs_cached, spawned = []\<rparr> \<and>
   spawned (convert model_utils (demo_env x2t_writes_artifact) demo_fs_stale demo_convert_request) =
     [(''/srv/app/converter/x2t'', [demo_descriptor])] \<and>
   reply (convert model_utils (demo_env x2t_writes_artifact) demo_fs_stale demo_convert_request) =
     Response (Send_binary ''852e532ae96ae0752c81d50f32478bed'' ''MISS'' [1, 2, 3])"
proof -
  have hit: "convert model_utils (demo_env x2t_exits_1) demo_fs_cached demo_convert_request =
     \<lparr>reply = Response (Send_binary ''852e532ae96ae0752c81d50f32478bed'' ''HIT'' [7, 7]),
      disk = demo_fs_cached, spawned = []\<rparr>"
    using convert_cache_rule [of demo_convert_request demo_source model_utils demo_fs_cached
        "File [0x61, 0x2C, 0x62, 0x0A] 1000" "demo_env x2t_exits_1"]
    by (simp add: demo_request_fields demo_source_node demo_artifact_node demo_convert_paths
        mtime_of_def)
  let ?E = "demo_env x2t_writes_artifact"
  let ?fs2 = "demo_fs_stale(demo_descriptor \<mapsto> File (utf8 (xml_document
            (convert_xmlConfig ?E demo_source demo_artifact (basename demo_source)))) 2000)"
  have stale: "\<not> (\<exists>n. demo_fs_stale (convert_outputPath model_utils ?E demo_source) = Some n \<and>
      mtime_of (File [0x61, 0x2C, 0x62, 0x0A] 1000) < mtime_of n)"
    by (simp add: demo_convert_paths demo_artifact_node mtime_of_def)
  have run: "x2t ?E ?fs2 (convert_paramsPath model_utils ?E demo_source) =
      Exited (Some 0) [] [] (?fs2(demo_artifact \<mapsto> File [1, 2, 3] 3000))"
    by (simp add: demo_env_def x2t_writes_artifact_def)
  have miss: "spawned (convert model_utils ?E demo_fs_stale demo_convert_request) =
       [(x2tPath ?E, [convert_paramsPath model_utils ?E demo_source])] \<and>
     reply (convert model_utils ?E demo_fs_stale demo_convert_request) =
       Response (Send_binary (generateFileHash model_utils demo_source) ''MISS'' [1, 2, 3])"
    using convert_cache_rule [of demo_convert_request demo_source model_utils demo_fs_stale
        "File [0x61, 0x2C, 0x62, 0x0A] 1000" ?E] stale demo_stale_prepare [of x2t_writes_artifact] run
    by (simp add: demo_request_fields demo_source_node demo_convert_paths)
  show ?thesis using hit miss by (simp add: demo_request_fields demo_convert_paths)
qed

section \<open>The verdict on a converter run\<close>

lemma convert_verdict:
  assumes "query_filepath req = Some p" and "p \<noteq> []" and "isAbsolutePath U p"
    and "fs p = Some src"
    and "\<not> (\<exists>n. fs (convert_outputPath U E p) = Some n \<and> mtime_of src < mtime_of n)"
    and "convert_prepare U E fs p = Inr fs2"
    and "x2t E fs2 (convert_paramsPath U E p) = Exited c out err fs3"
  shows "disk (convert U E fs req) =
           (case unlinkSync fs3 (convert_paramsPath U E p) of Inl e \<Rightarrow> fs3 | Inr fs4 \<Rightarrow> fs4) \<and>
         reply (convert U E fs req) =
           (if c \<noteq> Some 0 then Response (Send_text 500 (''Conversion failed: '' @ err))
            else case disk (convert U E fs req) (convert_outputPath U E p) of
                   None \<Rightarrow> Response (Send_text 500 ''Conversion failed: output file not created'')
                 | Some (File d m) \<Rightarrow> Response (Send_binary (generateFileHash U p) ''MISS'' d)
                 | Some (Dir m) \<Rightarrow> Uncaught (Fs_error EISDIR ''read'' (convert_outputPath U E p)))"
proof -
  have "convert U E fs req = convert_miss U E fs p"
    using convert_is_miss [of req p U fs src E] assms(1-5) by blast
  then show ?thesis
    using assms(6,7)
    by (auto simp add: convert_miss_def convert_on_close_def finish_def Let_def existsSync_def
        readFileSync_def split: option.splits node.splits)
qed

lemma save_verdict:
  assumes "query_filepath req = Some p" and "p \<noteq> []" and "isAbsolutePath U p"
    and "ensure_dir fs (now E) (dirname p) = Inr fs1"
    and "octet_stream req" and "\<not> isXLSXSignature U (body req)"
    and "getOutputFormatInfo U (toLowerCase (extname p)) = Some info"
    and "save_prepare E fs1 p (query_filehash req) (body req) (code info) (toLowerCase (extname p)) = Inr fs2"
    and "x2t E fs2 (save_paramsPath E (query_filehash req)) = Exited c out err fs3"
  shows "disk (save U E fs req) =
           save_cleanup fs3 (save_paramsPath E (query_filehash req))
             (save_changesBinPath E (query_filehash req)) \<and>
         reply (save U E fs req) =
           (if c \<noteq> Some 0 then Response (Send_text 500 ''Save failed: conversion error'')
            else case disk (save U E fs req) p of
                   None \<Rightarrow> Response (Send_text 500 ''Save failed: no output file'')
                 | Some (File d m) \<Rightarrow> Response (Json_saved p (length d))
                 | Some (Dir m) \<Rightarrow> Response (Json_saved p 0))"
proof -
  have "save U E fs req = save_binary U E fs1 p (query_filehash req) (body req)"
    using save_is_branch [OF assms(1-5)] assms(6) by simp
  then show ?thesis
    using assms(7-9)
    by (auto simp add: save_binary_def save_on_close_def finish_def Let_def existsSync_def
        statSync_def split: option.splits node.splits)
qed

text \<open>
  Claim C4. Once the converter has run and exited, the response is decided by its exit
  code and by the presence of the destination file, and by nothing else: what the child
  wrote to its standard output and standard error appears in no condition (the standard
  error is only appended to the message of the convert handler's failure). A code other
  than 0 (or no code, after a signal) gives the failure response of a failed conversion;
  code 0 with no destination on disk gives another failure response, with its own
  message; and the success response is sent if and only if the code is 0 and the
  destination is on disk. The filesystem left behind is the converter's, less the
  transient files.
\<close>

theorem exit_code_decides:
  "(query_filepath rc = Some p \<and> p \<noteq> [] \<and> isAbsolutePath U p \<and> fs p = Some src \<and>
    \<not> (\<exists>n. fs (convert_outputPath U E p) = Some n \<and> mtime_of src < mtime_of n) \<and>
    convert_prepare U E fs p = Inr fs2 \<and>
    x2t E fs2 (convert_paramsPath U E p) = Exited c out err fs3 \<longrightarrow>
      disk (convert U E fs rc) =
        (case unlinkSync fs3 (convert_paramsPath U E p) of Inl e \<Rightarrow> fs3 | Inr fs4 \<Rightarrow> fs4) \<and>
      reply (convert U E fs rc) =
        (if c \<noteq> Some 0 then Response (Send_text 500 (''Conversion failed: '' @ err))
         else case disk (convert U E fs rc) (convert_outputPath U E p) of
                None \<Rightarrow> Response (Send_text 500 ''Conversion failed: output file not created'')
              | Some (File d m) \<Rightarrow> Response (Send_binary (generateFileHash U p) ''MISS'' d)
              | Some (Dir m) \<Rightarrow> Uncaught (Fs_error EISDIR ''read'' (convert_outputPath U E p))) \<and>
      ((\<exists>d. reply (convert U E fs rc) = Response (Send_binary (generateFileHash U p) ''MISS'' d)) \<longleftrightarrow>
         c = Some 0 \<and> (\<exists>d m. disk (convert U E fs rc) (convert_outputPath U E p) = Some (File d m)))) \<and>
   (query_filepath rs = Some q \<and> q \<noteq> [] \<and> isAbsolutePath U q \<and>
    ensure_dir fs' (now E) (dirname q) = Inr fs1' \<and> octet_stream rs \<and> \<not> isXLSXSignature U (body rs) \<and>
    getOutputFormatInfo U (toLowerCase (extname q)) = Some info \<and>
    save_prepare E fs1' q (query_filehash rs) (body rs) (code info) (toLowerCase (extname q)) = Inr fs2' \<and>
    x2t E fs2' (save_paramsPath E (query_filehash rs)) = Exited c' out' err' fs3' \<longrightarrow>
      disk (save U E fs' rs) =
        save_cleanup fs3' (save_paramsPath E (query_filehash rs))
          (save_changesBinPath E (query_filehash rs)) \<and>
      reply (save U E fs' rs) =
        (if c' \<noteq> Some 0 then Response (Send_text 500 ''Save failed: conversion error'')
         else case disk (save U E fs' rs) q of
                None \<Rightarrow> Response (Send_text 500 ''Save failed: no output file'')
              | Some (File d m) \<Rightarrow> Response (Json_saved q (length d))
              | Some (Dir m) \<Rightarrow> Response (Json_saved q 0)) \<and>
      ((\<exists>n. reply (save U E fs' rs) = Response (Json_saved q n)) \<longleftrightarrow>
         c' = Some 0 \<and> disk (save U E fs' rs) q \<noteq> None))"
proof (intro conjI impI)
  assume a: "query_filepath rc = Some p \<and> p \<noteq> [] \<and> isAbsolutePath U p \<and> fs p = Some src \<and>
    \<not> (\<exists>n. fs (convert_outputPath U E p) = Some n \<and> mtime_of src < mtime_of n) \<and>
    convert_prepare U E fs p = Inr fs2 \<and>
    x2t E fs2 (convert_paramsPath U E p) = Exited c out err fs3"
  note v = convert_verdict [of rc p U fs src E fs2 c out err fs3]
  show "disk (convert U E fs rc) =
        (case unlinkSync fs3 (convert_paramsPath U E p) of Inl e \<Rightarrow> fs3 | Inr fs4 \<Rightarrow> fs4)"
    using a v by blast
  have r: "reply (convert U E fs rc) =
        (if c \<noteq> Some 0 then Response (Send_text 500 (''Conversion failed: '' @ err))
         else case disk (convert U E fs rc) (convert_outputPath U E p) of
                None \<Rightarrow> Response (Send_text 500 ''Conversion failed: output file not created'')
              | Some (File d m) \<Rightarrow> Response (Send_binary (generateFileHash U p) ''MISS'' d)
              | Some (Dir m) \<Rightarrow> Uncaught (Fs_error EISDIR ''read'' (convert_outputPath U E p)))"
    using a v by blast
  show "reply (convert U E fs rc) =
        (if c \<noteq> Some 0 then Response (Send_text 500 (''Conversion failed: '' @ err))
         else case disk (convert U E fs rc) (convert_outputPath U E p) of
                None \<Rightarrow> Response (Send_text 500 ''Conversion failed: output file not created'')
              | Some (File d m) \<Rightarrow> Response (Send_binary (generateFileHash U p) ''MISS'' d)
              | Some (Dir m) \<Rightarrow> Uncaught (Fs_error EISDIR ''read'' (convert_outputPath U E p)))"
    by (rule r)
  show "(\<exists>d. reply (convert U E fs rc) = Response (Send_binary (generateFileHash U p) ''MISS'' d)) \<longleftrightarrow>
         c = Some 0 \<and> (\<exists>d m. disk (convert U E fs rc) (convert_outputPath U E p) = Some (File d m))"
    unfolding r by (auto split: option.splits node.splits)
next
  assume a: "query_filepath rs = Some q \<and> q \<noteq> [] \<and> isAbsolutePath U q \<and>
    ensure_dir fs' (now E) (dirname q) = Inr fs1' \<and> octet_stream rs \<and> \<not> isXLSXSignature U (body rs) \<and>
    getOutputFormatInfo U (toLowerCase (extname q)) = Some info \<and>
    save_prepare E fs1' q (query_filehash rs) (body rs) (code info) (toLowerCase (extname q)) = Inr fs2' \<and>
    x2t E fs2' (save_paramsPath E (query_filehash rs)) = Exited c' out' err' fs3'"
  note v = save_verdict [of rs q U fs' E fs1' info fs2' c' out' err' fs3']
  show "disk (save U E fs' rs) =
        save_cleanup fs3' (save_paramsPath E (query_filehash rs))
          (save_changesBinPath E (query_filehash rs))"
    using a v by blast
  have r: "reply (save U E fs' rs) =
        (if c' \<noteq> Some 0 then Response (Send_text 500 ''Save failed: conversion error'')
         else case disk (save U E fs' rs) q of
                None \<Rightarrow> Response (Send_text 500 ''Save failed: no output file'')
              | Some (File d m) \<Rightarrow> Response (Json_saved q (length d))
              | Some (Dir m) \<Rightarrow> Response (Json_saved q 0))"
    using a v by blast
  show "reply (save U E fs' rs) =
        (if c' \<noteq> Some 0 then Response (Send_text 500 ''Save failed: conversion error'')
         else case disk (save U E fs' rs) q of
                None \<Rightarrow> Response (Send_text 500 ''Save failed: no output file'')
              | Some (File d m) \<Rightarrow> Response (Json_saved q (length d))
              | Some (Dir m) \<Rightarrow> Response (Json_saved q 0))"
    by (rule r)
  show "(\<exists>n. reply (save U E fs' rs) = Response (Json_saved q n)) \<longleftrightarrow>
         c' = Some 0 \<and> disk (save U E fs' rs) q \<noteq> None"
    unfolding r by (auto split: option.splits node.splits)
qed

lemma save_cleanup_other: "q \<noteq> a \<Longrightarrow> q \<noteq> b \<Longrightarrow> save_cleanup fs a b q = fs q"
  by (simp add: save_cleanup_def unlinkSync_def existsSync_def split: option.splits node.splits)

theorem exit_code_decides_witness:
  "reply (convert model_utils (demo_env x2t_exits_1) demo_fs demo_convert_request) =
     Response (Send_text 500 ''Conversion failed: Couldn't open file'') \<and>
   reply (convert model_utils (demo_env x2t_writes_nothing) demo_fs demo_convert_request) =
     Response (Send_text 500 ''Conversion failed: output file not created'') \<and>
   reply (save model_utils (demo_env x2t_exits_1) demo_fs_cached
       (demo_save_request ''/docs/out.csv'' editor_binary)) =
     Response (Send_text 500 ''Save failed: conversion error'') \<and>
   reply (save model_utils (demo_env x2t_writes_nothing) demo_fs_cached
       (demo_save_request ''/docs/out.csv'' editor_binary)) =
     Response (Send_text 500 ''Save failed: no output file'')"
proof -
  let ?fs2 = "\<lambda>c. demo_fs(demo_workdir \<mapsto> Dir 2000,
                  demo_descriptor \<mapsto> File (utf8 (xml_document
                     (convert_xmlConfig (demo_env c) demo_source demo_artifact (basename demo_source)))) 2000)"
  have conv: "query_filepath demo_convert_request = Some demo_source \<and> demo_source \<noteq> [] \<and>
      isAbsolutePath model_utils demo_source \<and>
      demo_fs demo_source = Some (File [0x61, 0x2C, 0x62, 0x0A] 1000) \<and>
      \<not> (\<exists>n. demo_fs (convert_outputPath model_utils (demo_env c) demo_source) = Some n \<and>
        mtime_of (File [0x61, 0x2C, 0x62, 0x0A] 1000) < mtime_of n) \<and>
      convert_prepare model_utils (demo_env c) demo_fs demo_source = Inr (?fs2 c)"
    for c
    using demo_convert_prepare [of c] demo_request_fields demo_source_node
    by (simp add: demo_convert_paths demo_artifact_node)
  have r1: "x2t (demo_env x2t_exits_1) (?fs2 x2t_exits_1)
      (convert_paramsPath model_utils (demo_env x2t_exits_1) demo_source) =
      Exited (Some 1) [] ''Couldn't open file'' (?fs2 x2t_exits_1)"
    by (simp add: demo_env_def x2t_exits_1_def)
  have r2: "x2t (demo_env x2t_writes_nothing) (?fs2 x2t_writes_nothing)
      (convert_paramsPath model_utils (demo_env x2t_writes_nothing) demo_source) =
      Exited (Some 0) [] [] (?fs2 x2t_writes_nothing)"
    by (simp add: demo_env_def x2t_writes_nothing_def)
  have a: "reply (convert model_utils (demo_env x2t_exits_1) demo_fs demo_convert_request) =
     Response (Send_text 500 ''Conversion failed: Couldn't open file'')"
    using exit_code_decides [THEN conjunct1, of demo_convert_request demo_source model_utils demo_fs
        "File [0x61, 0x2C, 0x62, 0x0A] 1000" "demo_env x2t_exits_1" "?fs2 x2t_exits_1"
        "Some 1" "[]" "''Couldn't open file''" "?fs2 x2t_exits_1"]
      conv [of x2t_exits_1] r1
    by simp
  have ne: "demo_artifact \<noteq> demo_descriptor"
    by (simp add: demo_artifact_def demo_descriptor_def)
  have "?fs2 x2t_writes_nothing demo_artifact = None"
    by (simp add: demo_artifact_def demo_descriptor_def demo_workdir_def demo_fs_def)
  then have gone: "(case unlinkSync (?fs2 x2t_writes_nothing) demo_descriptor of
        Inl e \<Rightarrow> ?fs2 x2t_writes_nothing | Inr fs4 \<Rightarrow> fs4) demo_artifact = None"
    by (simp only: unlink_other [OF ne])
  have b: "reply (convert model_utils (demo_env x2t_writes_nothing) demo_fs demo_convert_request) =
     Response (Send_text 500 ''Conversion failed: output file not created'')"
    using exit_code_decides [THEN conjunct1, of demo_convert_request demo_source model_utils demo_fs
        "File [0x61, 0x2C, 0x62, 0x0A] 1000" "demo_env x2t_writes_nothing" "?fs2 x2t_writes_nothing"
        "Some 0" "[]" "[]" "?fs2 x2t_writes_nothing"]
      conv [of x2t_writes_nothing] r2 gone
    by (simp add: demo_convert_paths)
  let ?rq = "demo_save_request ''/docs/out.csv'' editor_binary"
  let ?h = "Some ''852e532ae96ae0752c81d50f32478bed''"
  let ?fs2' = "\<lambda>c. demo_fs_cached(demo_changes \<mapsto> File editor_binary 2000,
            demo_save_descriptor \<mapsto> File (utf8 (xml_document
              (save_xmlConfig (demo_env c) demo_changes ''/docs/out.csv'' (basename ''/docs/out.csv'')
                 260 ''.csv''))) 2000)"
  have sv: "query_filepath ?rq = Some ''/docs/out.csv'' \<and> ''/docs/out.csv'' \<noteq> [] \<and>
      isAbsolutePath model_utils ''/docs/out.csv'' \<and>
      ensure_dir demo_fs_cached (now (demo_env c)) (dirname ''/docs/out.csv'') = Inr demo_fs_cached \<and>
      octet_stream ?rq \<and> \<not> isXLSXSignature model_utils (body ?rq) \<and>
      getOutputFormatInfo model_utils (toLowerCase (extname ''/docs/out.csv'')) =
        Some \<lparr>code = 260, name = ''CSV''\<rparr> \<and>
      save_prepare (demo_env c) demo_fs_cached ''/docs/out.csv'' (query_filehash ?rq) (body ?rq)
        (code \<lparr>code = 260, name = ''CSV''\<rparr>) (toLowerCase (extname ''/docs/out.csv'')) = Inr (?fs2' c)"
    for c
    using demo_save_prepare [of c "''/docs/out.csv''" editor_binary 260 "''.csv''"]
    by (simp add: demo_save_request_def model_utils_def demo_absolute demo_dirnames demo_docs_dir
        demo_signatures demo_extensions demo_env_def demo_declared)
  have q: "query_filehash ?rq = ?h" by (simp add: demo_save_request_def)
  have s1: "x2t (demo_env x2t_exits_1) (?fs2' x2t_exits_1)
      (save_paramsPath (demo_env x2t_exits_1) (query_filehash ?rq)) =
      Exited (Some 1) [] ''Couldn't open file'' (?fs2' x2t_exits_1)"
    by (simp add: demo_env_def x2t_exits_1_def)
  have s2: "x2t (demo_env x2t_writes_nothing) (?fs2' x2t_writes_nothing)
      (save_paramsPath (demo_env x2t_writes_nothing) (query_filehash ?rq)) =
      Exited (Some 0) [] [] (?fs2' x2t_writes_nothing)"
    by (simp add: demo_env_def x2t_writes_nothing_def)
  have c: "reply (save model_utils (demo_env x2t_exits_1) demo_fs_cached ?rq) =
     Response (Send_text 500 ''Save failed: conversion error'')"
    using exit_code_decides [THEN conjunct2, of ?rq "''/docs/out.csv''" model_utils demo_fs_cached
        "demo_env x2t_exits_1" demo_fs_cached "\<lparr>code = 260, name = ''CSV''\<rparr>" "?fs2' x2t_exits_1"
        "Some 1" "[]" "''Couldn't open file''" "?fs2' x2t_exits_1"]
      sv [of x2t_exits_1] s1
    by simp
  have none: "save_cleanup (?fs2' x2t_writes_nothing) demo_save_descriptor demo_changes
      ''/docs/out.csv'' = None"
    by (simp add: save_cleanup_other demo_save_descriptor_def demo_changes_def demo_fs_cached_def
        demo_fs_def demo_workdir_def demo_artifact_def)
  have d: "reply (save model_utils (demo_env x2t_writes_nothing) demo_fs_cached ?rq) =
     Response (Send_text 500 ''Save failed: no output file'')"
    using exit_code_decides [THEN conjunct2, of ?rq "''/docs/out.csv''" model_utils demo_fs_cached
        "demo_env x2t_writes_nothing" demo_fs_cached "\<lparr>code = 260, name = ''CSV''\<rparr>"
        "?fs2' x2t_writes_nothing" "Some 0" "[]" "[]" "?fs2' x2t_writes_nothing"]
      sv [of x2t_writes_nothing] s2 none
    by (simp add: q demo_save_paths)
  from a b c d show ?thesis by blast
qed

section \<open>The path check of the save handler\<close>

text \<open>
  Claim C5. A save request whose \<open>filepath\<close> parameter is not an absolute path fails
  with status 400 and a JSON error about the path (\<open>filepath must be an absolute path\<close>;
  for an empty parameter, which the handler treats as a missing one, \<open>filepath query
  parameter is required\<close>), the client error that the spec calls InvalidPath. The
  filesystem is returned as it was received, so nothing was created, written or deleted,
  and no process was spawned.
\<close>

theorem save_rejects_nonabsolute_path:
  assumes "query_filepath req = Some p" and "\<not> isAbsolutePath U p"
  shows "save U E fs req =
           \<lparr>reply = Response (Json_error 400
               (if p = [] then ''filepath query parameter is required''
                else ''filepath must be an absolute path'')),
            disk = fs, spawned = []\<rparr>"
  using assms by (simp add: save_def finish_def)

theorem save_rejects_nonabsolute_path_witness:
  "save model_utils (demo_env x2t_exits_1) demo_fs (demo_save_request ''docs/out.xlsx'' empty_zip) =
     \<lparr>reply = Response (Json_error 400 ''filepath must be an absolute path''),
      disk = demo_fs, spawned = []\<rparr>"
  using save_rejects_nonabsolute_path [of "demo_save_request ''docs/out.xlsx'' empty_zip"
      "''docs/out.xlsx''" model_utils "demo_env x2t_exits_1" demo_fs]
  by (simp add: demo_save_request_def model_utils_def demo_absolute)

section \<open>The classification of the payload\<close>




section \<open>The parent directory of the destination\<close>














section \<open>The clean-up of the transient files\<close>

text \<open>
  After a converter run that ended with an exit code, the convert handler has deleted
  its descriptor.
\<close>

lemma convert_exit_removes_descriptor:
  assumes "query_filepath req = Some p" and "p \<noteq> []" and "isAbsolutePath U p"
    and "fs p = Some src"
    and "\<not> (\<exists>n. fs (convert_outputPath U E p) = Some n \<and> mtime_of src < mtime_of n)"
    and "convert_prepare U E fs p = Inr fs2"
    and "x2t E fs2 (convert_paramsPath U E p) = Exited c out err fs3"
  shows "\<forall>d m. disk (convert U E fs req) (convert_paramsPath U E p) \<noteq> Some (File d m)"
proof -
  have "disk (convert U E fs req) =
      (case unlinkSync fs3 (convert_paramsPath U E p) of Inl e \<Rightarrow> fs3 | Inr fs4 \<Rightarrow> fs4)"
    using convert_verdict [of req p U fs src E fs2 c out err fs3] assms by blast
  then show ?thesis
    by (simp add: unlinkSync_def split: option.splits node.splits)
qed

text \<open>
  The save handler deletes its descriptor and the temporary binary after every spawn,
  also after one that failed, as long as no directory stands at the descriptor's path.
\<close>

lemma save_cleanup_removes:
  assumes "\<not> is_dir fs a"
  shows "(\<forall>d m. save_cleanup fs a b a \<noteq> Some (File d m)) \<and>
         (\<forall>d m. save_cleanup fs a b b \<noteq> Some (File d m))"
  using assms
  by (auto simp add: save_cleanup_def unlinkSync_def existsSync_def is_dir_def
      split: option.splits node.splits if_splits)

lemma save_removes_transients:
  assumes "query_filepath req = Some p" and "p \<noteq> []" and "isAbsolutePath U p"
    and "ensure_dir fs (now E) (dirname p) = Inr fs1"
    and "octet_stream req" and "\<not> isXLSXSignature U (body req)"
    and "getOutputFormatInfo U (toLowerCase (extname p)) = Some info"
    and "save_prepare E fs1 p (query_filehash req) (body req) (code info) (toLowerCase (extname p)) = Inr fs2"
    and "\<not> is_dir (case x2t E fs2 (save_paramsPath E (query_filehash req)) of
                     Spawn_failed e \<Rightarrow> fs2 | Exited c out err fs3 \<Rightarrow> fs3)
           (save_paramsPath E (query_filehash req))"
  shows "(\<forall>d m. disk (save U E fs req) (save_paramsPath E (query_filehash req)) \<noteq> Some (File d m)) \<and>
         (\<forall>d m. disk (save U E fs req) (save_changesBinPath E (query_filehash req)) \<noteq> Some (File d m))"
proof -
  let ?a = "save_paramsPath E (query_filehash req)"
  let ?b = "save_changesBinPath E (query_filehash req)"
  have s: "save U E fs req = save_binary U E fs1 p (query_filehash req) (body req)"
    using save_is_branch [OF assms(1-5)] assms(6) by simp
  show ?thesis
  proof (cases "x2t E fs2 ?a")
    case (Spawn_failed e)
    then have "disk (save U E fs req) = save_cleanup fs2 ?a ?b"
      using s assms(7,8)
      by (simp add: save_binary_def save_on_close_def finish_def Let_def split: sum.splits)
    then show ?thesis using save_cleanup_removes [of fs2 ?a ?b] assms(9) Spawn_failed by simp
  next
    case (Exited c out err fs3)
    then have "disk (save U E fs req) = save_cleanup fs3 ?a ?b"
      using s assms(7,8)
      by (simp add: save_binary_def save_on_close_def finish_def Let_def split: sum.splits)
    then show ?thesis using save_cleanup_removes [of fs3 ?a ?b] assms(9) Exited by simp
  qed
qed

text \<open>
  The convert handler registers no listener for the child's \<open>error\<close> event: when the
  converter cannot be started the event is thrown, and the \<open>close\<close> listener, which
  holds the deletion, never runs.
\<close>

lemma convert_spawn_failure:
  assumes "query_filepath req = Some p" and "p \<noteq> []" and "isAbsolutePath U p"
    and "fs p = Some src"
    and "\<not> (\<exists>n. fs (convert_outputPath U E p) = Some n \<and> mtime_of src < mtime_of n)"
    and "convert_prepare U E fs p = Inr fs2"
    and "x2t E fs2 (convert_paramsPath U E p) = Spawn_failed e"
  shows "convert U E fs req =
           \<lparr>reply = Unhandled_error_event e, disk = fs2,
            spawned = [(x2tPath E, [convert_paramsPath U E p])]\<rparr>"
proof -
  have "convert U E fs req = convert_miss U E fs p"
    using convert_is_miss [of req p U fs src E] assms(1-5) by blast
  then show ?thesis
    using assms(6,7) by (simp add: convert_miss_def finish_def Let_def)
qed

lemma demo_convert_spawn_failure:
  "convert model_utils (demo_env x2t_not_installed) demo_fs demo_convert_request =
     \<lparr>reply = Unhandled_error_event (- 2),
      disk = demo_fs(demo_workdir \<mapsto> Dir 2000,
                     demo_descriptor \<mapsto> File (utf8 (xml_document
                       (convert_xmlConfig (demo_env x2t_not_installed) demo_source demo_artifact
                          (basename demo_source)))) 2000),
      spawned = [(''/srv/app/converter/x2t'', [demo_descriptor])]\<rparr>"
proof -
  let ?E = "demo_env x2t_not_installed"
  have fresh: "\<not> (\<exists>n. demo_fs (convert_outputPath model_utils ?E demo_source) = Some n \<and>
      mtime_of (File [0x61, 0x2C, 0x62, 0x0A] 1000) < mtime_of n)"
    by (simp add: demo_convert_paths demo_artifact_node)
  have run: "x2t ?E fs2 (convert_paramsPath model_utils ?E demo_source) = Spawn_failed (- 2)" for fs2
    by (simp add: demo_env_def x2t_not_installed_def)
  show ?thesis
    using convert_spawn_failure [of demo_convert_request demo_source model_utils demo_fs
        "File [0x61, 0x2C, 0x62, 0x0A] 1000" ?E _ "- 2"]
      demo_request_fields demo_source_node(1) fresh demo_convert_prepare [of x2t_not_installed] run
    by (simp add: demo_convert_paths)
qed

text \<open>
  Claim C3, on the code: the convert request for \<open>/docs/simple.csv\<close> on a server whose
  converter cannot be started. The handler ends with the unhandled \<open>error\<close> event, and
  the descriptor \<open>params_temp.xml\<close>, which was not there before, is still in the
  working directory.
\<close>

theorem convert_spawn_failure_leaves_descriptor:
  "reply (convert model_utils (demo_env x2t_not_installed) demo_fs demo_convert_request) =
     Unhandled_error_event (- 2) \<and>
   existsSync (disk (convert model_utils (demo_env x2t_not_installed) demo_fs demo_convert_request))
     demo_descriptor \<and>
   demo_fs demo_descriptor = None"
proof -
  have a: "reply (convert model_utils (demo_env x2t_not_installed) demo_fs demo_convert_request) =
      Unhandled_error_event (- 2)"
    by (simp add: demo_convert_spawn_failure)
  have b: "demo_fs demo_descriptor = None"
    by (simp add: demo_fs_def demo_descriptor_def)
  have c: "existsSync (disk (convert model_utils (demo_env x2t_not_installed) demo_fs
      demo_convert_request)) demo_descriptor"
    by (simp add: demo_convert_spawn_failure existsSync_def)
  from a b c show ?thesis by blast
qed

section \<open>Errors that leave the handlers\<close>

text \<open>
  Claim C9, on the code: two requests whose filesystem or process error is not turned
  into a response. A save request with a payload without the signature and the
  fingerprint of a document whose working directory does not exist: writing
  \<open>temp_changes.bin\<close> throws, outside any \<open>try\<close>, and the exception leaves the
  handler. A convert request on a server whose converter cannot be started: the child's
  \<open>error\<close> event has no listener.
\<close>

theorem errors_leave_the_handlers:
  "save model_utils (demo_env x2t_exits_1) demo_fs (demo_save_request ''/docs/out.csv'' editor_binary) =
     \<lparr>reply = Uncaught (Fs_error ENOENT ''open'' demo_changes), disk = demo_fs, spawned = []\<rparr> \<and>
   reply (convert model_utils (demo_env x2t_not_installed) demo_fs demo_convert_request) =
     Unhandled_error_event (- 2)"
proof -
  let ?E = "demo_env x2t_exits_1"
  let ?rq = "demo_save_request ''/docs/out.csv'' editor_binary"
  have n: "now ?E = 2000" by (simp add: demo_env_def)
  have "save model_utils ?E demo_fs ?rq =
      save_binary model_utils ?E demo_fs ''/docs/out.csv''
        (Some ''852e532ae96ae0752c81d50f32478bed'') editor_binary"
    using save_is_branch [of ?rq "''/docs/out.csv''" model_utils demo_fs ?E demo_fs]
    by (simp add: demo_save_request_def model_utils_def demo_absolute demo_dirnames demo_docs_dir
        demo_signatures demo_declared n)
  moreover have "writeFileSync demo_fs 2000 demo_changes editor_binary =
      Inl (Fs_error ENOENT ''open'' demo_changes)"
    by (simp add: writeFileSync_def demo_changes_def demo_dirnames demo_fs_def)
  then have "save_binary model_utils ?E demo_fs ''/docs/out.csv''
        (Some ''852e532ae96ae0752c81d50f32478bed'') editor_binary =
      \<lparr>reply = Uncaught (Fs_error ENOENT ''open'' demo_changes), disk = demo_fs, spawned = []\<rparr>"
    by (simp add: save_binary_def save_prepare_def Let_def model_utils_def demo_extensions
        demo_save_paths n finish_def)
  ultimately show ?thesis by (simp add: demo_convert_spawn_failure)
qed

end
